theory Spec2Isabelle
  imports Complex_Main "HOL-Library.AList"
begin

section \<open>Numbers, points and poses\<close>

text \<open>
  The program is TypeScript; every \<^verbatim>\<open>number\<close> is an IEEE double. The model reads
  a \<^verbatim>\<open>number\<close> as a \<^typ>\<open>real\<close>: arithmetic is exact and every value is finite, so
  rounding, overflow, NaN and the two zeros are outside the model. \<^verbatim>\<open>Math.PI\<close> is
  \<^term>\<open>pi\<close>, \<^verbatim>\<open>Math.cos\<close> and \<^verbatim>\<open>Math.sin\<close> are \<^term>\<open>cos\<close> and \<^term>\<open>sin\<close>.
  Field names that would hide a common variable or a HOL constant get a short prefix
  (\<open>px\<close>, \<open>py\<close> for the \<^verbatim>\<open>x\<close>, \<^verbatim>\<open>y\<close> of a \<^verbatim>\<open>Point\<close>).
\<close>

record Point =
  px :: real
  py :: real

text \<open>The six limb angles of one side (the type of \<^verbatim>\<open>PoseData.left\<close> and \<^verbatim>\<open>PoseData.right\<close>).\<close>

record Side =
  shoulder :: real
  elbow :: real
  hand :: real
  hip :: real
  knee :: real
  foot :: real

record PoseData =
  groundTilt :: real
  offset :: Point
  torso :: real
  waist :: real
  head :: real
  left :: Side
  right :: Side

datatype error = TypeError

subsection \<open>Constants of \<^verbatim>\<open>kinematics.ts\<close>\<close>

definition W :: real where "W = 800"
definition H :: real where "H = 800"
definition HEAD_UNIT :: real where "HEAD_UNIT = 64"
definition HEAD_SIZE :: real where "HEAD_SIZE = 51"
definition TORSO_HEIGHT :: real where "TORSO_HEIGHT = HEAD_UNIT * 2.25"
definition WAIST_HEIGHT :: real where "WAIST_HEIGHT = HEAD_UNIT * 1.25"
definition NECK_LENGTH :: real where "NECK_LENGTH = 0"
definition L_ARM :: real where "L_ARM = HEAD_UNIT * 1.5"
definition L_FOREARM :: real where "L_FOREARM = HEAD_UNIT * 1.5"
definition L_HAND :: real where "L_HAND = HEAD_UNIT * 0.75"
definition L_THIGH :: real where "L_THIGH = HEAD_UNIT * 1.75"
definition L_SHIN :: real where "L_SHIN = HEAD_UNIT * 1.75"
definition L_FOOT :: real where "L_FOOT = HEAD_UNIT * 0.75"

lemmas kin_consts = W_def H_def HEAD_UNIT_def HEAD_SIZE_def TORSO_HEIGHT_def
  WAIST_HEIGHT_def NECK_LENGTH_def L_ARM_def L_FOREARM_def L_HAND_def L_THIGH_def
  L_SHIN_def L_FOOT_def

subsection \<open>The joint hierarchy\<close>

text \<open>
  \<^verbatim>\<open>hierarchy\<close> is an object literal: a table from joint key to its parent (or
  \<^verbatim>\<open>null\<close>) and its children, in the order the literal lists them, which is the
  order \<^verbatim>\<open>Object.keys\<close> reports.
\<close>

record HNode =
  parent :: "string option"
  children :: "string list"

definition hierarchy :: "(string \<times> HNode) list" where
  "hierarchy =
   [(''ground'', \<lparr>parent = None, children = [''root'']\<rparr>),
    (''root'', \<lparr>parent = Some ''ground'', children = [''torso'', ''waist'']\<rparr>),
    (''torso'', \<lparr>parent = Some ''root'',
       children = [''head'', ''left.shoulder'', ''right.shoulder'']\<rparr>),
    (''waist'', \<lparr>parent = Some ''root'', children = [''left.hip'', ''right.hip'']\<rparr>),
    (''head'', \<lparr>parent = Some ''torso'', children = []\<rparr>),
    (''left.shoulder'', \<lparr>parent = Some ''torso'', children = [''left.elbow'']\<rparr>),
    (''left.elbow'', \<lparr>parent = Some ''left.shoulder'', children = [''left.hand'']\<rparr>),
    (''left.hand'', \<lparr>parent = Some ''left.elbow'', children = []\<rparr>),
    (''right.shoulder'', \<lparr>parent = Some ''torso'', children = [''right.elbow'']\<rparr>),
    (''right.elbow'', \<lparr>parent = Some ''right.shoulder'', children = [''right.hand'']\<rparr>),
    (''right.hand'', \<lparr>parent = Some ''right.elbow'', children = []\<rparr>),
    (''left.hip'', \<lparr>parent = Some ''waist'', children = [''left.knee'']\<rparr>),
    (''left.knee'', \<lparr>parent = Some ''left.hip'', children = [''left.foot'']\<rparr>),
    (''left.foot'', \<lparr>parent = Some ''left.knee'', children = []\<rparr>),
    (''right.hip'', \<lparr>parent = Some ''waist'', children = [''right.knee'']\<rparr>),
    (''right.knee'', \<lparr>parent = Some ''right.hip'', children = [''right.foot'']\<rparr>),
    (''right.foot'', \<lparr>parent = Some ''right.knee'', children = []\<rparr>)]"

definition hierarchyKeys :: "string list" where
  "hierarchyKeys = map fst hierarchy"

subsection \<open>Strings\<close>

text \<open>\<^verbatim>\<open>s.split('.')\<close>: the pieces of \<open>s\<close> between the dots, at least one piece.\<close>

fun splitDot :: "string \<Rightarrow> string list" where
  "splitDot [] = [[]]"
| "splitDot (c # cs) =
     (if c = CHR ''.'' then [] # splitDot cs
      else (case splitDot cs of [] \<Rightarrow> [[c]] | w # ws \<Rightarrow> (c # w) # ws))"

text \<open>\<^verbatim>\<open>s.includes(t)\<close>: \<open>t\<close> occurs in \<open>s\<close> as a contiguous piece.\<close>

fun startsWith :: "string \<Rightarrow> string \<Rightarrow> bool" where
  "startsWith s [] = True"
| "startsWith [] (d # t) = False"
| "startsWith (c # s) (d # t) = (c = d \<and> startsWith s t)"

fun includesStr :: "string \<Rightarrow> string \<Rightarrow> bool" where
  "includesStr [] t = (t = [])"
| "includesStr (c # s) t = (startsWith (c # s) t \<or> includesStr s t)"

section \<open>Forward kinematics: the parent frame of a joint\<close>

text \<open>
  \<^verbatim>\<open>pose[side]\<close> for the \<open>side\<close> split off a limb key. The record has the two
  properties \<^verbatim>\<open>left\<close> and \<^verbatim>\<open>right\<close>; any other name reads \<^verbatim>\<open>undefined\<close>, and
  the property access that follows throws.
\<close>

definition poseSide :: "PoseData \<Rightarrow> string \<Rightarrow> Side option" where
  "poseSide pose side =
     (if side = ''left'' then Some (left pose)
      else if side = ''right'' then Some (right pose)
      else None)"

text \<open>
  \<^verbatim>\<open>getParentWorldAngle(key, pose): number | null\<close>. The result \<open>Inr (Some a)\<close> is
  the number \<open>a\<close>, \<open>Inr None\<close> is \<^verbatim>\<open>null\<close>, \<open>Inl TypeError\<close> is a thrown
  TypeError. \<^verbatim>\<open>hierarchy[key]?.parent\<close> is \<^verbatim>\<open>undefined\<close> for a key the table does
  not have and \<^verbatim>\<open>null\<close> for \<^verbatim>\<open>'ground'\<close>; both are falsy, and so is no parent
  key of the table (none is the empty string), so \<^verbatim>\<open>!parentKey\<close> is the case
  \<open>None\<close> of the two lookups.
\<close>

definition getParentWorldAngle :: "string \<Rightarrow> PoseData \<Rightarrow> error + real option" where
  "getParentWorldAngle key pose =
     (case (case map_of hierarchy key of None \<Rightarrow> None | Some node \<Rightarrow> parent node) of
        None \<Rightarrow> Inr (Some 0)
      | Some parentKey \<Rightarrow>
          if parentKey = [] then Inr (Some 0)
          else if parentKey = ''ground'' then Inr (Some (groundTilt pose))
          else if parentKey = ''torso'' then Inr (Some (groundTilt pose + torso pose))
          else if parentKey = ''waist'' then Inr (Some (groundTilt pose + waist pose))
          else if parentKey = ''root'' then Inr (Some (groundTilt pose))
          else
            (let parts = splitDot parentKey;
                 side = parts ! 0;
                 jointName = (if 1 < length parts then Some (parts ! 1) else None)
             in if jointName = Some ''shoulder'' then
                  (case poseSide pose side of None \<Rightarrow> Inl TypeError
                   | Some s \<Rightarrow> Inr (Some (groundTilt pose + torso pose + shoulder s)))
                else if jointName = Some ''elbow'' then
                  (case poseSide pose side of None \<Rightarrow> Inl TypeError
                   | Some s \<Rightarrow>
                       Inr (Some (groundTilt pose + torso pose + shoulder s + elbow s)))
                else if jointName = Some ''hip'' then
                  (case poseSide pose side of None \<Rightarrow> Inl TypeError
                   | Some s \<Rightarrow> Inr (Some (groundTilt pose + waist pose + hip s)))
                else if jointName = Some ''knee'' then
                  (case poseSide pose side of None \<Rightarrow> Inl TypeError
                   | Some s \<Rightarrow>
                       Inr (Some (groundTilt pose + waist pose + hip s + knee s)))
                else Inr None))"

section \<open>Forward kinematics: the skeleton\<close>

datatype Shape = Line | Polygon | Curve | Circle | Custom

text \<open>A \<^verbatim>\<open>BoneSegment\<close>; \<open>bend\<close> is its field \<^verbatim>\<open>end\<close>, \<open>bkey\<close> its \<^verbatim>\<open>key\<close>.\<close>

record BoneSegment =
  bkey :: string
  bstart :: Point
  bend :: Point
  width :: real
  angle :: real
  shape :: Shape
  vertices :: "Point list option"

text \<open>
  A \<^verbatim>\<open>Skeleton\<close>. \<^verbatim>\<open>joints\<close> is an object used as a dictionary; its keys are
  reported in insertion order, so it is an association list that an assignment
  updates in place or extends at the end (\<^const>\<open>AList.update\<close>).
\<close>

record Skeleton =
  joints :: "(string \<times> Point) list"
  bones :: "BoneSegment list"

definition rad :: "real \<Rightarrow> real" where
  "rad deg = (deg * pi) / 180"

definition getDefaultPose :: PoseData where
  "getDefaultPose =
     \<lparr>groundTilt = 0, offset = \<lparr>px = 0, py = 0\<rparr>, torso = 0, waist = 0, head = 0,
      left = \<lparr>shoulder = rad 180, elbow = 0, hand = 0, hip = rad 100, knee = 0, foot = 0\<rparr>,
      right = \<lparr>shoulder = rad 0, elbow = 0, hand = 0, hip = rad 80, knee = 0, foot = 0\<rparr>\<rparr>"

definition rotatePoint :: "real \<Rightarrow> real \<Rightarrow> real \<Rightarrow> Point" where
  "rotatePoint x y a = \<lparr>px = x * cos a - y * sin a, py = x * sin a + y * cos a\<rparr>"

definition getEndPoint :: "Point \<Rightarrow> real \<Rightarrow> real \<Rightarrow> Point" where
  "getEndPoint start a len = \<lparr>px = px start + cos a * len, py = py start + sin a * len\<rparr>"

text \<open>
  The two caches of \<^verbatim>\<open>computeSkeleton\<close> and the closures that write them:
  \<^verbatim>\<open>storeJoint\<close> assigns a property, \<^verbatim>\<open>storeBone\<close> pushes a segment.
\<close>

type_synonym caches = "(string \<times> Point) list \<times> BoneSegment list"

definition storeJoint :: "string \<Rightarrow> Point \<Rightarrow> caches \<Rightarrow> caches" where
  "storeJoint key p c = (AList.update key p (fst c), snd c)"

definition storeBone :: "string \<Rightarrow> Point \<Rightarrow> Point \<Rightarrow> real \<Rightarrow> real \<Rightarrow> caches \<Rightarrow> caches" where
  "storeBone key start e w a c =
     (fst c, snd c @ [\<lparr>bkey = key, bstart = start, bend = e, width = w, angle = a,
                       shape = Custom, vertices = None\<rparr>])"

text \<open>The literal tuple \<^verbatim>\<open>['left', 'right'] as const\<close> that both limb loops run over.\<close>

datatype SideName = LeftSide | RightSide

fun sideStr :: "SideName \<Rightarrow> string" where
  "sideStr LeftSide = ''left''"
| "sideStr RightSide = ''right''"

fun sideOf :: "PoseData \<Rightarrow> SideName \<Rightarrow> Side" where
  "sideOf pose LeftSide = left pose"
| "sideOf pose RightSide = right pose"

text \<open>The body of the first loop: shoulder, elbow and hand of one side.\<close>

definition armSide :: "PoseData \<Rightarrow> real \<Rightarrow> Point \<Rightarrow> SideName \<Rightarrow> caches \<Rightarrow> caches" where
  "armSide pose torsoAngle neckPos side c0 =
     (let shoulderWidth = 48;
          shoulderX = (if side = LeftSide then - shoulderWidth else shoulderWidth);
          sOffset = rotatePoint shoulderX 0 torsoAngle;
          sPos = \<lparr>px = px neckPos + px sOffset, py = py neckPos + py sOffset\<rparr>;
          sKey = sideStr side @ ''.shoulder'';
          c1 = storeJoint sKey sPos c0;
          sAngle = torsoAngle + shoulder (sideOf pose side);
          ePos = getEndPoint sPos sAngle L_ARM;
          c2 = storeBone sKey sPos ePos 36 sAngle c1;
          eKey = sideStr side @ ''.elbow'';
          c3 = storeJoint eKey ePos c2;
          eAngle = sAngle + elbow (sideOf pose side);
          hPos = getEndPoint ePos eAngle L_FOREARM;
          c4 = storeBone eKey ePos hPos 28 eAngle c3;
          hKey = sideStr side @ ''.hand'';
          c5 = storeJoint hKey hPos c4;
          hAngle = eAngle + hand (sideOf pose side);
          handEnd = getEndPoint hPos hAngle L_HAND
      in storeBone hKey hPos handEnd 16 hAngle c5)"

text \<open>The body of the second loop: hip, knee and foot of one side.\<close>

definition legSide :: "PoseData \<Rightarrow> real \<Rightarrow> Point \<Rightarrow> SideName \<Rightarrow> caches \<Rightarrow> caches" where
  "legSide pose waistAngle waistEnd side c0 =
     (let hipWidth = 29;
          hipX = (if side = LeftSide then - hipWidth else hipWidth);
          hipAttachPoint = waistEnd;
          hOffset = rotatePoint hipX 0 waistAngle;
          hPos = \<lparr>px = px hipAttachPoint + px hOffset, py = py hipAttachPoint + py hOffset\<rparr>;
          hKey = sideStr side @ ''.hip'';
          c1 = storeJoint hKey hPos c0;
          hAngle = waistAngle + hip (sideOf pose side);
          kPos = getEndPoint hPos hAngle L_THIGH;
          c2 = storeBone hKey hPos kPos 44 (hAngle - pi / 2) c1;
          kKey = sideStr side @ ''.knee'';
          c3 = storeJoint kKey kPos c2;
          kAngle = hAngle + knee (sideOf pose side);
          fPos = getEndPoint kPos kAngle L_SHIN;
          c4 = storeBone kKey kPos fPos 32 (kAngle - pi / 2) c3;
          fKey = sideStr side @ ''.foot'';
          c5 = storeJoint fKey fPos c4;
          fAngle = kAngle + foot (sideOf pose side);
          footEnd = getEndPoint fPos fAngle L_FOOT
      in storeBone fKey fPos footEnd 18 (fAngle - pi / 2) c5)"

definition computeSkeleton :: "PoseData \<Rightarrow> Skeleton" where
  "computeSkeleton pose =
     (let groundBaseYOffset = WAIST_HEIGHT + L_THIGH + L_SHIN;
          groundBasePos = \<lparr>px = W / 2, py = 650 + py (offset pose)\<rparr>;
          rootPos = \<lparr>px = W / 2 + px (offset pose), py = py groundBasePos - groundBaseYOffset\<rparr>;
          groundAngle = groundTilt pose;
          torsoAngle = groundAngle + torso pose;
          waistAngle = groundAngle + waist pose;
          c1 = storeJoint ''root'' rootPos ([], []);
          c2 = storeJoint ''ground'' groundBasePos c1;
          c3 = storeBone ''ground'' groundBasePos groundBasePos 100 groundAngle c2;
          neckAttachOffset = TORSO_HEIGHT;
          neckPos = getEndPoint rootPos (torsoAngle - pi / 2) neckAttachOffset;
          c4 = storeJoint ''torso'' neckPos c3;
          c5 = storeBone ''torso'' rootPos neckPos 100 torsoAngle c4;
          waistEnd = getEndPoint rootPos (waistAngle + pi / 2) WAIST_HEIGHT;
          c6 = storeJoint ''waist'' waistEnd c5;
          c7 = storeBone ''waist'' rootPos waistEnd 60 waistAngle c6;
          neckEndPos = getEndPoint neckPos (torsoAngle - pi / 2) NECK_LENGTH;
          c8 = storeBone ''neck'' neckPos neckEndPos 13 torsoAngle c7;
          headAngle = torsoAngle + head pose;
          headEnd = getEndPoint neckPos headAngle 1;
          c9 = storeBone ''head'' neckPos headEnd HEAD_SIZE headAngle c8;
          c10 = storeJoint ''head'' neckPos c9;
          c11 = fold (armSide pose torsoAngle neckPos) [LeftSide, RightSide] c10;
          c12 = fold (legSide pose waistAngle waistEnd) [LeftSide, RightSide] c11
      in \<lparr>joints = fst c12, bones = snd c12\<rparr>)"

text \<open>
  The segment that \<^verbatim>\<open>computeSkeleton\<close> records under a key, and the pose field a
  joint key names: \<^verbatim>\<open>pose[key]\<close> for a plain key, \<^verbatim>\<open>pose[side][joint]\<close> for a
  dotted one, as the editing code of \<^verbatim>\<open>Canvas.tsx\<close> and the pose extraction
  address it.
\<close>

definition boneAngle :: "string \<Rightarrow> Skeleton \<Rightarrow> real option" where
  "boneAngle key sk = map_option angle (find (\<lambda>b. bkey b = key) (bones sk))"

definition sideField :: "string \<Rightarrow> Side \<Rightarrow> real option" where
  "sideField name s =
     (if name = ''shoulder'' then Some (shoulder s)
      else if name = ''elbow'' then Some (elbow s)
      else if name = ''hand'' then Some (hand s)
      else if name = ''hip'' then Some (hip s)
      else if name = ''knee'' then Some (knee s)
      else if name = ''foot'' then Some (foot s)
      else None)"

definition localAngleOf :: "string \<Rightarrow> PoseData \<Rightarrow> real option" where
  "localAngleOf key pose =
     (case splitDot key of
        [s, j] \<Rightarrow> (case poseSide pose s of None \<Rightarrow> None | Some sd \<Rightarrow> sideField j sd)
      | _ \<Rightarrow>
          if key = ''torso'' then Some (torso pose)
          else if key = ''waist'' then Some (waist pose)
          else if key = ''head'' then Some (head pose)
          else if key = ''groundTilt'' then Some (groundTilt pose)
          else None)"

text \<open>
  The cross-check of the composition invariant at one joint: the parent frame that
  \<open>getParentWorldAngle\<close> reports, plus the joint's own local angle, plus a constant
  \<open>d\<close>, is the angle on the joint's segment.
\<close>

definition fkComposition :: "real \<Rightarrow> PoseData \<Rightarrow> string \<Rightarrow> bool" where
  "fkComposition d pose key =
     (case (getParentWorldAngle key pose, localAngleOf key pose) of
        (Inr (Some a), Some l) \<Rightarrow> boneAngle key (computeSkeleton pose) = Some (a + l + d)
      | _ \<Rightarrow> False)"

definition armKeys :: "string list" where
  "armKeys = [''left.shoulder'', ''left.elbow'', ''left.hand'',
              ''right.shoulder'', ''right.elbow'', ''right.hand'']"

definition legKeys :: "string list" where
  "legKeys = [''left.hip'', ''left.knee'', ''left.foot'',
              ''right.hip'', ''right.knee'', ''right.foot'']"

section \<open>Pose interpolation (\<^verbatim>\<open>interpolation.ts\<close>)\<close>

text \<open>
  \<^verbatim>\<open>recursiveInterpolate\<close> takes two values of type \<^verbatim>\<open>any\<close> and inspects them
  with \<^verbatim>\<open>typeof\<close>. The values it can meet are numbers, \<^verbatim>\<open>null\<close>, plain objects
  (own enumerable string keys in insertion order, no key twice) and the other
  primitives (strings, booleans, \<^verbatim>\<open>undefined\<close>), which \<open>JPrim\<close> stands for.
\<close>

datatype jval = JNum real | JNull | JPrim string | JObj "(string \<times> jval) list"

text \<open>
  The number case blends; an object \<open>a\<close> against a non-null \<open>b\<close> runs the
  \<^verbatim>\<open>for (const key in a)\<close> loop, which is \<open>interpolateKeys\<close> with the object
  \<^verbatim>\<open>result\<close> built so far; everything else is the fallback. Inside the loop
  \<^verbatim>\<open>key in b\<close> throws a TypeError when \<open>b\<close> is a primitive.
\<close>

function (sequential)
  recursiveInterpolate :: "jval \<Rightarrow> jval \<Rightarrow> real \<Rightarrow> (real \<Rightarrow> real) \<Rightarrow> error + jval"
  and interpolateKeys ::
    "(string \<times> jval) list \<Rightarrow> jval \<Rightarrow> real \<Rightarrow> (real \<Rightarrow> real) \<Rightarrow> (string \<times> jval) list
      \<Rightarrow> error + (string \<times> jval) list"
where
  "recursiveInterpolate (JNum a) (JNum b) t easingFn =
     (let easedT = easingFn t in Inr (JNum (a * (1 - easedT) + b * easedT)))"
| "recursiveInterpolate (JObj fs) JNull t easingFn =
     Inr (if t < 0.5 then JObj fs else JNull)"
| "recursiveInterpolate (JObj fs) b t easingFn =
     (case interpolateKeys fs b t easingFn [] of
        Inl e \<Rightarrow> Inl e
      | Inr result \<Rightarrow> Inr (JObj result))"
| "recursiveInterpolate a b t easingFn = Inr (if t < 0.5 then a else b)"
| "interpolateKeys [] b t easingFn result = Inr result"
| "interpolateKeys ((key, v) # fs) (JObj gs) t easingFn result =
     (case map_of gs key of
        None \<Rightarrow> interpolateKeys fs (JObj gs) t easingFn result
      | Some w \<Rightarrow>
          (case recursiveInterpolate v w t easingFn of
             Inl e \<Rightarrow> Inl e
           | Inr r \<Rightarrow> interpolateKeys fs (JObj gs) t easingFn (AList.update key r result)))"
| "interpolateKeys ((key, v) # fs) b t easingFn result = Inl TypeError"
  by pat_completeness auto
termination
  by (relation "measure (\<lambda>x. case x of
         Inl (a, b, t, e) \<Rightarrow> size a
       | Inr (fs, b, t, e, r) \<Rightarrow> size_list (size_prod (\<lambda>_. 0) size) fs)") auto

definition linearEase :: "real \<Rightarrow> real" where
  "linearEase t = t"

definition sineEase :: "real \<Rightarrow> real" where
  "sineEase t = 0.5 * (1 - cos (t * pi))"

text \<open>The parameter \<^verbatim>\<open>easing: 'linear' | 'sine'\<close>.\<close>

datatype Easing = Linear | Sine

text \<open>
  A \<^verbatim>\<open>PoseData\<close> value as the object \<^verbatim>\<open>recursiveInterpolate\<close> walks; the result
  of \<^verbatim>\<open>interpolatePose\<close> is such an object too (the source casts it
  \<^verbatim>\<open>as PoseData\<close> without a check).
\<close>

definition pointToJ :: "Point \<Rightarrow> jval" where
  "pointToJ p = JObj [(''x'', JNum (px p)), (''y'', JNum (py p))]"

definition sideToJ :: "Side \<Rightarrow> jval" where
  "sideToJ s =
     JObj [(''shoulder'', JNum (shoulder s)), (''elbow'', JNum (elbow s)),
           (''hand'', JNum (hand s)), (''hip'', JNum (hip s)),
           (''knee'', JNum (knee s)), (''foot'', JNum (foot s))]"

definition poseToJ :: "PoseData \<Rightarrow> jval" where
  "poseToJ p =
     JObj [(''groundTilt'', JNum (groundTilt p)), (''offset'', pointToJ (offset p)),
           (''torso'', JNum (torso p)), (''waist'', JNum (waist p)),
           (''head'', JNum (head p)), (''left'', sideToJ (left p)),
           (''right'', sideToJ (right p))]"

definition interpolatePose :: "PoseData \<Rightarrow> PoseData \<Rightarrow> real \<Rightarrow> Easing \<Rightarrow> error + jval" where
  "interpolatePose poseA poseB t easing =
     (let easingFn = (if easing = Linear then linearEase else sineEase);
          clampedT = max 0 (min 1 t)
      in recursiveInterpolate (poseToJ poseA) (poseToJ poseB) clampedT easingFn)"

text \<open>The arithmetic mean of two poses, field by field.\<close>

definition meanSide :: "Side \<Rightarrow> Side \<Rightarrow> Side" where
  "meanSide a b =
     \<lparr>shoulder = (shoulder a + shoulder b) / 2, elbow = (elbow a + elbow b) / 2,
      hand = (hand a + hand b) / 2, hip = (hip a + hip b) / 2,
      knee = (knee a + knee b) / 2, foot = (foot a + foot b) / 2\<rparr>"

definition meanPose :: "PoseData \<Rightarrow> PoseData \<Rightarrow> PoseData" where
  "meanPose a b =
     \<lparr>groundTilt = (groundTilt a + groundTilt b) / 2,
      offset = \<lparr>px = (px (offset a) + px (offset b)) / 2,
                py = (py (offset a) + py (offset b)) / 2\<rparr>,
      torso = (torso a + torso b) / 2, waist = (waist a + waist b) / 2,
      head = (head a + head b) / 2,
      left = meanSide (left a) (left b), right = meanSide (right a) (right b)\<rparr>"

section \<open>The physics engine (\<^verbatim>\<open>physics.ts\<close>)\<close>

text \<open>
  A particle, a distance constraint and a body. \<open>pid\<close> is the field \<^verbatim>\<open>id\<close>. The
  two indices of a constraint are array indices (\<^typ>\<open>nat\<close>). \<^verbatim>\<open>particleMap\<close> is a
  \<^verbatim>\<open>Map\<close>: \<^verbatim>\<open>set\<close> is \<^const>\<open>AList.update\<close>, \<^verbatim>\<open>get\<close> is \<^const>\<open>map_of\<close>.
  The objects under \<^verbatim>\<open>pos\<close> and \<^verbatim>\<open>prevPos\<close> are modelled as values: no two
  fields share one object, which holds for every body \<^verbatim>\<open>createPhysicsBodyFromPose\<close>
  builds (each is a fresh spread copy) and is kept by every step.
\<close>

record PhysicsParticle =
  pid :: string
  pos :: Point
  prevPos :: Point
  mass :: real

record PhysicsConstraint =
  particleAIndex :: nat
  particleBIndex :: nat
  restLength :: real

record PhysicsBody =
  particles :: "PhysicsParticle list"
  constraints :: "PhysicsConstraint list"
  particleMap :: "(string \<times> nat) list"

definition GRAVITY :: Point where "GRAVITY = \<lparr>px = 0, py = 9.8 * 100\<rparr>"
definition FRICTION :: real where "FRICTION = 0.99"
definition GROUND_FRICTION :: real where "GROUND_FRICTION = 0.85"
definition SOLVER_ITERATIONS :: nat where "SOLVER_ITERATIONS = 10"
definition GROUND_PLANE_Y :: real where "GROUND_PLANE_Y = H - 40"
definition STIFFNESS :: real where "STIFFNESS = 0.6"
definition DAMPING :: real where "DAMPING = 0.4"

text \<open>\<^verbatim>\<open>Math.hypot(a, b)\<close>.\<close>

definition hypot :: "real \<Rightarrow> real \<Rightarrow> real" where
  "hypot a b = sqrt (a * a + b * b)"

subsection \<open>\<^verbatim>\<open>createPhysicsBodyFromPose\<close>\<close>

text \<open>The body of the loop over \<^verbatim>\<open>Object.entries(skeleton.joints)\<close>.\<close>

definition addParticle ::
  "string \<times> Point \<Rightarrow> PhysicsParticle list \<times> (string \<times> nat) list
     \<Rightarrow> PhysicsParticle list \<times> (string \<times> nat) list" where
  "addParticle entry st =
     (let key = fst entry; point = snd entry; ps = fst st; pm = snd st
      in if key = ''ground'' then st
         else
           (let particle = \<lparr>pid = key, pos = point, prevPos = point, mass = 1.0\<rparr>;
                particle1 =
                  (if key = ''root'' \<or> key = ''waist'' \<or> key = ''torso'' \<or> key = ''neck''
                   then particle\<lparr>mass := 3.0\<rparr> else particle);
                particle2 =
                  (if includesStr key ''hand'' \<or> includesStr key ''foot''
                   then particle1\<lparr>mass := 0.5\<rparr> else particle1)
            in (ps @ [particle2], AList.update key (length ps) pm)))"

text \<open>
  The inner loop over \<^verbatim>\<open>hierarchy[parentKey].children\<close>, and the outer one over
  \<^verbatim>\<open>Object.keys(hierarchy)\<close>, which meets every entry of the table in order.
\<close>

definition addChildConstraint ::
  "PhysicsParticle list \<Rightarrow> (string \<times> nat) list \<Rightarrow> nat \<Rightarrow> string
     \<Rightarrow> PhysicsConstraint list \<Rightarrow> PhysicsConstraint list" where
  "addChildConstraint ps pm parentIndex childKey cs =
     (case map_of pm childKey of
        None \<Rightarrow> cs
      | Some childIndex \<Rightarrow>
          (let parentParticle = ps ! parentIndex;
               childParticle = ps ! childIndex;
               len = hypot (px (pos childParticle) - px (pos parentParticle))
                           (py (pos childParticle) - py (pos parentParticle))
           in if len > 0.1
              then cs @ [\<lparr>particleAIndex = parentIndex, particleBIndex = childIndex,
                          restLength = len\<rparr>]
              else cs))"

definition addConstraints ::
  "PhysicsParticle list \<Rightarrow> (string \<times> nat) list \<Rightarrow> string \<times> HNode
     \<Rightarrow> PhysicsConstraint list \<Rightarrow> PhysicsConstraint list" where
  "addConstraints ps pm entry cs =
     (let parentKey = fst entry
      in if parentKey = ''ground'' then cs
         else
           (case map_of pm parentKey of
              None \<Rightarrow> cs
            | Some parentIndex \<Rightarrow>
                fold (addChildConstraint ps pm parentIndex) (children (snd entry)) cs))"

definition createPhysicsBodyFromPose :: "PoseData \<Rightarrow> PhysicsBody" where
  "createPhysicsBodyFromPose pose =
     (let skeleton = computeSkeleton pose;
          st = fold addParticle (joints skeleton) ([], []);
          ps = fst st;
          pm = snd st;
          cs = fold (addConstraints ps pm) hierarchy []
      in \<lparr>particles = ps, constraints = cs, particleMap = pm\<rparr>)"

text \<open>
  What a constraint of a body links: some entry of the hierarchy and one of its
  children, through the index map.
\<close>

definition linksParentChild :: "PhysicsBody \<Rightarrow> PhysicsConstraint \<Rightarrow> bool" where
  "linksParentChild body c =
     list_ex (\<lambda>entry.
        map_of (particleMap body) (fst entry) = Some (particleAIndex c)
        \<and> list_ex (\<lambda>childKey. map_of (particleMap body) childKey = Some (particleBIndex c))
             (children (snd entry)))
       hierarchy"

definition particleDist :: "PhysicsBody \<Rightarrow> nat \<Rightarrow> nat \<Rightarrow> real" where
  "particleDist body i j =
     hypot (px (pos (particles body ! j)) - px (pos (particles body ! i)))
           (py (pos (particles body ! j)) - py (pos (particles body ! i)))"

subsection \<open>The joints of a skeleton in closed form\<close>

text \<open>
  Names for the positions \<^verbatim>\<open>computeSkeleton\<close> stores, used to state what the
  skeleton and the body built from it contain (lemma \<open>joints_computeSkeleton\<close>).
\<close>

definition rootPosOf :: "PoseData \<Rightarrow> Point" where
  "rootPosOf pose =
     \<lparr>px = W / 2 + px (offset pose),
      py = 650 + py (offset pose) - (WAIST_HEIGHT + L_THIGH + L_SHIN)\<rparr>"

definition groundPosOf :: "PoseData \<Rightarrow> Point" where
  "groundPosOf pose = \<lparr>px = W / 2, py = 650 + py (offset pose)\<rparr>"

definition neckPosOf :: "PoseData \<Rightarrow> Point" where
  "neckPosOf pose =
     getEndPoint (rootPosOf pose) (groundTilt pose + torso pose - pi / 2) TORSO_HEIGHT"

definition waistEndOf :: "PoseData \<Rightarrow> Point" where
  "waistEndOf pose =
     getEndPoint (rootPosOf pose) (groundTilt pose + waist pose + pi / 2) WAIST_HEIGHT"

definition shoulderPosOf :: "SideName \<Rightarrow> PoseData \<Rightarrow> Point" where
  "shoulderPosOf side pose =
     (let sOffset = rotatePoint (if side = LeftSide then - 48 else 48) 0
                      (groundTilt pose + torso pose)
      in \<lparr>px = px (neckPosOf pose) + px sOffset, py = py (neckPosOf pose) + py sOffset\<rparr>)"

definition elbowPosOf :: "SideName \<Rightarrow> PoseData \<Rightarrow> Point" where
  "elbowPosOf side pose =
     getEndPoint (shoulderPosOf side pose)
       (groundTilt pose + torso pose + shoulder (sideOf pose side)) L_ARM"

definition handPosOf :: "SideName \<Rightarrow> PoseData \<Rightarrow> Point" where
  "handPosOf side pose =
     getEndPoint (elbowPosOf side pose)
       (groundTilt pose + torso pose + shoulder (sideOf pose side) + elbow (sideOf pose side))
       L_FOREARM"

definition hipPosOf :: "SideName \<Rightarrow> PoseData \<Rightarrow> Point" where
  "hipPosOf side pose =
     (let hOffset = rotatePoint (if side = LeftSide then - 29 else 29) 0
                      (groundTilt pose + waist pose)
      in \<lparr>px = px (waistEndOf pose) + px hOffset, py = py (waistEndOf pose) + py hOffset\<rparr>)"

definition kneePosOf :: "SideName \<Rightarrow> PoseData \<Rightarrow> Point" where
  "kneePosOf side pose =
     getEndPoint (hipPosOf side pose)
       (groundTilt pose + waist pose + hip (sideOf pose side)) L_THIGH"

definition footPosOf :: "SideName \<Rightarrow> PoseData \<Rightarrow> Point" where
  "footPosOf side pose =
     getEndPoint (kneePosOf side pose)
       (groundTilt pose + waist pose + hip (sideOf pose side) + knee (sideOf pose side))
       L_SHIN"

text \<open>The particle literal of the loop: both positions are copies of the joint.\<close>

definition mkParticle :: "string \<Rightarrow> Point \<Rightarrow> real \<Rightarrow> PhysicsParticle" where
  "mkParticle key p m = \<lparr>pid = key, pos = p, prevPos = p, mass = m\<rparr>"

text \<open>
  The property of one constraint of a body: its rest length exceeds 0.1, is the
  distance of the two particles it names, and the two are a parent and a child of
  the hierarchy.
\<close>

definition constraintOk :: "PhysicsBody \<Rightarrow> PhysicsConstraint \<Rightarrow> bool" where
  "constraintOk body c =
     (restLength c > 0.1
      \<and> restLength c = particleDist body (particleAIndex c) (particleBIndex c)
      \<and> linksParentChild body c)"

subsection \<open>\<^verbatim>\<open>updatePhysicsBody\<close>\<close>

text \<open>
  The step mutates the body in place and returns nothing. The model returns the body
  after the call, paired with the exception that ended the call early, if any
  (\<open>None\<close>: the call returned): an index of a constraint outside the particle array
  reads \<^verbatim>\<open>undefined\<close>, and \<^verbatim>\<open>pB.pos\<close> then throws, leaving the body as mutated
  so far.

  Numbers are reals and positions are values in this model, and a target joint is
  looked up among the own keys of \<^verbatim>\<open>joints\<close>. What depends on an infinity, on NaN,
  on an inherited property or on two fields naming one position object is stated on
  the second model of the step, on a store, further down.
\<close>

fun foldE :: "('a \<Rightarrow> 's \<Rightarrow> error option \<times> 's) \<Rightarrow> 'a list \<Rightarrow> 's \<Rightarrow> error option \<times> 's" where
  "foldE f [] s = (None, s)"
| "foldE f (x # xs) s =
     (case f x s of (Some e, s') \<Rightarrow> (Some e, s') | (None, s') \<Rightarrow> foldE f xs s')"

text \<open>Phase 1, the body of the first \<^verbatim>\<open>forEach\<close>: forces and Verlet integration.\<close>

definition integrateParticle :: "real \<Rightarrow> Skeleton option \<Rightarrow> PhysicsParticle \<Rightarrow> PhysicsParticle" where
  "integrateParticle dtSq targetSkeleton p =
     (if mass p = 0 then p
      else
        (let velocity = \<lparr>px = (px (pos p) - px (prevPos p)) * FRICTION,
                         py = (py (pos p) - py (prevPos p)) * FRICTION\<rparr>;
             p1 = p\<lparr>prevPos := pos p\<rparr>;
             accel0 = \<lparr>px = px GRAVITY, py = py GRAVITY\<rparr>;
             accel =
               (case targetSkeleton of
                  None \<Rightarrow> accel0
                | Some sk \<Rightarrow>
                    (case map_of (joints sk) (pid p1) of
                       None \<Rightarrow> accel0
                     | Some targetPos \<Rightarrow>
                         (let springForce =
                                \<lparr>px = (px targetPos - px (pos p1)) * STIFFNESS,
                                 py = (py targetPos - py (pos p1)) * STIFFNESS\<rparr>;
                              dampingForce =
                                \<lparr>px = - px velocity * DAMPING, py = - py velocity * DAMPING\<rparr>;
                              totalForce =
                                \<lparr>px = px springForce + px dampingForce,
                                 py = py springForce + py dampingForce\<rparr>
                          in \<lparr>px = px accel0 + px totalForce / mass p1,
                              py = py accel0 + py totalForce / mass p1\<rparr>)))
         in p1\<lparr>pos := \<lparr>px = px (pos p1) + (px velocity + px accel * dtSq),
                       py = py (pos p1) + (py velocity + py accel * dtSq)\<rparr>\<rparr>))"

text \<open>Phase 2, the body of the inner \<^verbatim>\<open>forEach\<close>: one distance constraint.\<close>

definition relaxConstraint ::
  "PhysicsConstraint \<Rightarrow> PhysicsParticle list \<Rightarrow> error option \<times> PhysicsParticle list" where
  "relaxConstraint c ps =
     (if particleAIndex c < length ps \<and> particleBIndex c < length ps then
        (let pA = ps ! particleAIndex c;
             pB = ps ! particleBIndex c;
             delta = \<lparr>px = px (pos pB) - px (pos pA), py = py (pos pB) - py (pos pA)\<rparr>;
             dist = hypot (px delta) (py delta)
         in if dist < 0.001 then (None, ps)
            else
              (let diff = (dist - restLength c) / dist;
                   totalMass = mass pA + mass pB
               in if totalMass = 0 then (None, ps)
                  else
                    (let pAShare = (if mass pA > 0 then mass pA / totalMass else 1);
                         pBShare = (if mass pB > 0 then mass pB / totalMass else 1);
                         pA' = pA\<lparr>pos := \<lparr>px = px (pos pA) + px delta * diff * pBShare,
                                            py = py (pos pA) + py delta * diff * pBShare\<rparr>\<rparr>;
                         pB' = pB\<lparr>pos := \<lparr>px = px (pos pB) - px delta * diff * pAShare,
                                            py = py (pos pB) - py delta * diff * pAShare\<rparr>\<rparr>
                     in (None, ps[particleAIndex c := pA', particleBIndex c := pB']))))
      else (Some TypeError, ps))"

text \<open>One pass over the constraints, and the loop of \<open>n\<close> passes.\<close>

definition relaxPass ::
  "PhysicsConstraint list \<Rightarrow> PhysicsParticle list \<Rightarrow> error option \<times> PhysicsParticle list" where
  "relaxPass cs ps = foldE relaxConstraint cs ps"

fun relaxLoop ::
  "nat \<Rightarrow> PhysicsConstraint list \<Rightarrow> PhysicsParticle list
     \<Rightarrow> error option \<times> PhysicsParticle list" where
  "relaxLoop 0 cs ps = (None, ps)"
| "relaxLoop (Suc n) cs ps =
     (case relaxPass cs ps of
        (Some e, ps') \<Rightarrow> (Some e, ps')
      | (None, ps') \<Rightarrow> relaxLoop n cs ps')"

text \<open>Phase 3, the body of the last \<^verbatim>\<open>forEach\<close>: ground and side walls.\<close>

definition collideParticle :: "PhysicsParticle \<Rightarrow> PhysicsParticle" where
  "collideParticle p =
     (let p1 =
            (if py (pos p) > GROUND_PLANE_Y then
               (let vel = \<lparr>px = px (pos p) - px (prevPos p),
                           py = py (pos p) - py (prevPos p)\<rparr>;
                    pa = p\<lparr>pos := (pos p)\<lparr>py := GROUND_PLANE_Y\<rparr>\<rparr>;
                    pb = pa\<lparr>prevPos := (prevPos pa)\<lparr>py := py (pos pa) + py vel * 0.1\<rparr>\<rparr>
                in if includesStr (pid pb) ''foot''
                   then pb\<lparr>prevPos := (prevPos pb)\<lparr>px := px (pos pb)\<rparr>\<rparr>
                   else pb\<lparr>prevPos :=
                           (prevPos pb)\<lparr>px := px (pos pb) - px vel * GROUND_FRICTION\<rparr>\<rparr>)
             else p);
          p2 = (if px (pos p1) < 10 then p1\<lparr>pos := (pos p1)\<lparr>px := 10\<rparr>\<rparr> else p1);
          p3 = (if px (pos p2) > W - 10 then p2\<lparr>pos := (pos p2)\<lparr>px := W - 10\<rparr>\<rparr> else p2)
      in p3)"

definition updatePhysicsBody ::
  "PhysicsBody \<Rightarrow> real \<Rightarrow> Skeleton option \<Rightarrow> error option \<times> PhysicsBody" where
  "updatePhysicsBody body dt targetSkeleton =
     (let dtSq = dt * dt;
          ps1 = map (integrateParticle dtSq targetSkeleton) (particles body)
      in case relaxLoop SOLVER_ITERATIONS (constraints body) ps1 of
           (Some e, ps2) \<Rightarrow> (Some e, body\<lparr>particles := ps2\<rparr>)
         | (None, ps2) \<Rightarrow> (None, body\<lparr>particles := map collideParticle ps2\<rparr>))"

text \<open>
  A body of two particles 2 apart, the first of mass 0, linked by one constraint of
  rest length 1.
\<close>

definition anchoredPair :: PhysicsBody where
  "anchoredPair =
     \<lparr>particles =
        [\<lparr>pid = ''a'', pos = \<lparr>px = 100, py = 100\<rparr>, prevPos = \<lparr>px = 100, py = 100\<rparr>,
          mass = 0\<rparr>,
         \<lparr>pid = ''b'', pos = \<lparr>px = 102, py = 100\<rparr>, prevPos = \<lparr>px = 102, py = 100\<rparr>,
          mass = 1\<rparr>],
      constraints = [\<lparr>particleAIndex = 0, particleBIndex = 1, restLength = 1\<rparr>],
      particleMap = [(''a'', 0), (''b'', 1)]\<rparr>"

subsection \<open>\<^verbatim>\<open>extractPoseFromPhysicsBody\<close>\<close>

text \<open>
  \<^verbatim>\<open>Math.atan2(y, x)\<close> on reals: the angle of the point \<open>(x, y)\<close> in \<open>(-pi, pi]\<close>, and
  0 at the origin.
\<close>

definition atan2 :: "real \<Rightarrow> real \<Rightarrow> real" where
  "atan2 y x =
     (if x > 0 then arctan (y / x)
      else if x < 0 then (if y \<ge> 0 then arctan (y / x) + pi else arctan (y / x) - pi)
      else if y > 0 then pi / 2
      else if y < 0 then - (pi / 2)
      else 0)"

text \<open>
  The closure \<^verbatim>\<open>getParticlePos\<close>: \<open>Inr None\<close> is \<^verbatim>\<open>undefined\<close>; an index of the
  map beyond the particle array makes \<^verbatim>\<open>body.particles[index].pos\<close> throw.
\<close>

definition getParticlePos :: "PhysicsBody \<Rightarrow> string \<Rightarrow> error + Point option" where
  "getParticlePos body key =
     (case map_of (particleMap body) key of
        None \<Rightarrow> Inr None
      | Some index \<Rightarrow>
          if index < length (particles body) then Inr (Some (pos (particles body ! index)))
          else Inl TypeError)"

text \<open>
  The write \<^verbatim>\<open>newPose[parts[0]][parts[1]] = localAngle\<close> for a key of two parts and
  \<^verbatim>\<open>newPose[childKey] = localAngle\<close> otherwise. A first part that names a number
  field or no field makes the write throw (module code is strict). A name that the
  addressed record does not have adds a property outside the type \<^verbatim>\<open>PoseData\<close>,
  which leaves every field of the record as it is; no child key of the hierarchy is
  such a name.
\<close>

definition setSideField :: "string \<Rightarrow> real \<Rightarrow> Side \<Rightarrow> Side" where
  "setSideField name v s =
     (if name = ''shoulder'' then s\<lparr>shoulder := v\<rparr>
      else if name = ''elbow'' then s\<lparr>elbow := v\<rparr>
      else if name = ''hand'' then s\<lparr>hand := v\<rparr>
      else if name = ''hip'' then s\<lparr>hip := v\<rparr>
      else if name = ''knee'' then s\<lparr>knee := v\<rparr>
      else if name = ''foot'' then s\<lparr>foot := v\<rparr>
      else s)"

definition setPoseAngle :: "string \<Rightarrow> real \<Rightarrow> PoseData \<Rightarrow> error + PoseData" where
  "setPoseAngle childKey v newPose =
     (let parts = splitDot childKey
      in if length parts = 2 then
           (if parts ! 0 = ''left''
              then Inr (newPose\<lparr>left := setSideField (parts ! 1) v (left newPose)\<rparr>)
            else if parts ! 0 = ''right''
              then Inr (newPose\<lparr>right := setSideField (parts ! 1) v (right newPose)\<rparr>)
            else if parts ! 0 = ''offset''
              then Inr (newPose\<lparr>offset :=
                     (if parts ! 1 = ''x'' then (offset newPose)\<lparr>px := v\<rparr>
                      else if parts ! 1 = ''y'' then (offset newPose)\<lparr>py := v\<rparr>
                      else offset newPose)\<rparr>)
            else Inl TypeError)
         else if childKey = ''groundTilt'' then Inr (newPose\<lparr>groundTilt := v\<rparr>)
         else if childKey = ''torso'' then Inr (newPose\<lparr>torso := v\<rparr>)
         else if childKey = ''waist'' then Inr (newPose\<lparr>waist := v\<rparr>)
         else if childKey = ''head'' then Inr (newPose\<lparr>head := v\<rparr>)
         else Inr newPose)"

text \<open>
  The position of a key in the hierarchy table, counted from the end (0 for a key the
  table does not have). Every child stands after its parent, which is why the
  recursion of \<^verbatim>\<open>calculateAngles\<close> ends.
\<close>

definition hierarchyRank :: "string \<Rightarrow> nat" where
  "hierarchyRank key = length (dropWhile (\<lambda>entry. fst entry \<noteq> key) hierarchy)"

lemma hierarchyRank_table:
  "list_all (\<lambda>entry. list_all (\<lambda>childKey. hierarchyRank childKey < hierarchyRank (fst entry))
                          (children (snd entry))) hierarchy"
  by (simp add: hierarchy_def hierarchyRank_def)

lemma hierarchyRank_child:
  assumes "map_of hierarchy parentKey = Some node" and "childKey \<in> set (children node)"
  shows "hierarchyRank childKey < hierarchyRank parentKey"
proof -
  have "(parentKey, node) \<in> set hierarchy" using assms(1) by (rule map_of_SomeD)
  with hierarchyRank_table assms(2) show ?thesis by (fastforce simp: list_all_iff)
qed

text \<open>
  The recursive closure \<^verbatim>\<open>calculateAngles\<close>. Its state is the pose under
  construction and the map \<^verbatim>\<open>worldAngles\<close>; the \<^verbatim>\<open>forEach\<close> over the children is
  a fold that stops changing the state once an exception is raised.
\<close>

function calculateAngles ::
  "PhysicsBody \<Rightarrow> string \<Rightarrow> real \<Rightarrow> PoseData \<times> (string \<times> real) list
     \<Rightarrow> error + PoseData \<times> (string \<times> real) list" where
  "calculateAngles body parentKey parentWorldAngle st =
     (case map_of hierarchy parentKey of
        None \<Rightarrow> Inl TypeError
      | Some node \<Rightarrow>
          fold (\<lambda>childKey acc.
                  case acc of
                    Inl e \<Rightarrow> Inl e
                  | Inr (newPose, worldAngles) \<Rightarrow>
                      (case getParticlePos body parentKey of
                         Inl e \<Rightarrow> Inl e
                       | Inr parentPos \<Rightarrow>
                           (case getParticlePos body childKey of
                              Inl e \<Rightarrow> Inl e
                            | Inr childPos \<Rightarrow>
                                (case (parentPos, childPos) of
                                   (Some pp, Some cp) \<Rightarrow>
                                     (let dx = px cp - px pp;
                                          dy = py cp - py pp;
                                          childWorldAngle = atan2 dy dx;
                                          worldAngles' =
                                            AList.update childKey childWorldAngle worldAngles;
                                          localAngle = childWorldAngle - parentWorldAngle
                                      in case setPoseAngle childKey localAngle newPose of
                                           Inl e \<Rightarrow> Inl e
                                         | Inr newPose' \<Rightarrow>
                                             calculateAngles body childKey childWorldAngle
                                               (newPose', worldAngles'))
                                 | _ \<Rightarrow> Inr (newPose, worldAngles)))))
               (children node) (Inr st))"
  by pat_completeness auto
termination
  by (relation "measure (\<lambda>(body, parentKey, a, st). hierarchyRank parentKey)")
     (auto simp: hierarchyRank_child)

declare calculateAngles.simps [simp del]

definition extractPoseFromPhysicsBody :: "PhysicsBody \<Rightarrow> PoseData \<Rightarrow> error + PoseData" where
  "extractPoseFromPhysicsBody body initialPose =
     (let newPose = initialPose
      in case getParticlePos body ''root'' of
           Inl e \<Rightarrow> Inl e
         | Inr rootPos \<Rightarrow>
             (case getParticlePos body ''torso'' of
                Inl e \<Rightarrow> Inl e
              | Inr torsoPos \<Rightarrow>
                  (case getParticlePos body ''waist'' of
                     Inl e \<Rightarrow> Inl e
                   | Inr waistPos \<Rightarrow>
                       (case (rootPos, torsoPos, waistPos) of
                          (Some rp, Some tp, Some wp) \<Rightarrow>
                            (let avgCoreX = (px tp + px wp) / 2;
                                 avgCoreY = (py tp + py wp) / 2;
                                 groundAngle =
                                   atan2 (avgCoreY - py rp) (avgCoreX - px rp) - pi / 2;
                                 newPose1 = newPose\<lparr>groundTilt := groundAngle\<rparr>;
                                 worldAngles = AList.update ''root'' groundAngle [];
                                 newPose2 =
                                   newPose1\<lparr>offset := (offset newPose1)\<lparr>px := px rp - W / 2\<rparr>\<rparr>;
                                 groundBaseYOffset = WAIST_HEIGHT + L_THIGH + L_SHIN;
                                 newPose3 =
                                   newPose2\<lparr>offset :=
                                     (offset newPose2)\<lparr>py := (py rp + groundBaseYOffset) - 650\<rparr>\<rparr>
                             in case calculateAngles body ''root'' groundAngle
                                       (newPose3, worldAngles) of
                                  Inl e \<Rightarrow> Inl e
                                | Inr (p, wa) \<Rightarrow> Inr p)
                        | _ \<Rightarrow> Inr newPose))))"


section \<open>Inverse kinematics (\<^verbatim>\<open>ik.ts\<close>)\<close>

text \<open>
  \<^verbatim>\<open>solveFabrik(chain, target, iterations, tolerance)\<close> on values: the chain is the
  list of its points. Every loop of the source runs over the indices
  \<open>0 ..< length - 1\<close> of the working copy \<^verbatim>\<open>solvedChain\<close>, forwards or backwards,
  and assigns one slot per round. Where a distance \<open>r\<close> is 0 the source divides by
  zero and leaves the real numbers; the quotient of the model is then 0.
\<close>

definition distance :: "Point \<Rightarrow> Point \<Rightarrow> real" where
  "distance p1 p2 = hypot (px p1 - px p2) (py p1 - py p2)"

definition segmentLengths :: "Point list \<Rightarrow> real list" where
  "segmentLengths solvedChain =
     map (\<lambda>i. distance (solvedChain ! i) (solvedChain ! (i + 1)))
       [0 ..< length solvedChain - 1]"

text \<open>The body of the stretch loop (target out of reach), at index \<open>i\<close>.\<close>

definition stretchStep :: "real list \<Rightarrow> Point \<Rightarrow> nat \<Rightarrow> Point list \<Rightarrow> Point list" where
  "stretchStep lengths target i solvedChain =
     (let r = distance (solvedChain ! i) target;
          lambda = lengths ! i / r
      in solvedChain[i + 1 :=
           \<lparr>px = (1 - lambda) * px (solvedChain ! i) + lambda * px target,
            py = (1 - lambda) * py (solvedChain ! i) + lambda * py target\<rparr>])"

text \<open>The bodies of the forward pass (towards the first point) and of the backward pass.\<close>

definition forwardStep :: "real list \<Rightarrow> nat \<Rightarrow> Point list \<Rightarrow> Point list" where
  "forwardStep lengths i solvedChain =
     (let r = distance (solvedChain ! i) (solvedChain ! (i + 1));
          lambda = lengths ! i / r
      in solvedChain[i :=
           \<lparr>px = (1 - lambda) * px (solvedChain ! (i + 1)) + lambda * px (solvedChain ! i),
            py = (1 - lambda) * py (solvedChain ! (i + 1)) + lambda * py (solvedChain ! i)\<rparr>])"

definition backwardStep :: "real list \<Rightarrow> nat \<Rightarrow> Point list \<Rightarrow> Point list" where
  "backwardStep lengths i solvedChain =
     (let r = distance (solvedChain ! i) (solvedChain ! (i + 1));
          lambda = lengths ! i / r
      in solvedChain[i + 1 :=
           \<lparr>px = (1 - lambda) * px (solvedChain ! i) + lambda * px (solvedChain ! (i + 1)),
            py = (1 - lambda) * py (solvedChain ! i) + lambda * py (solvedChain ! (i + 1))\<rparr>])"

text \<open>One round of the \<^verbatim>\<open>while\<close> loop: forward pass, then backward pass.\<close>

definition fabrikRound :: "real list \<Rightarrow> Point \<Rightarrow> Point \<Rightarrow> Point list \<Rightarrow> Point list" where
  "fabrikRound lengths rootPt target solvedChain =
     (let n = length solvedChain;
          c1 = solvedChain[n - 1 := target];
          c2 = fold (forwardStep lengths) (rev [0 ..< n - 1]) c1;
          c3 = c2[0 := rootPt]
      in fold (backwardStep lengths) [0 ..< n - 1] c3)"

text \<open>
  The \<^verbatim>\<open>while\<close> loop. \<open>rootPt\<close> is the copy \<^verbatim>\<open>root\<close> of the first point,
  \<open>iter\<close> counts the rounds done; the end effector is the last point of the working
  copy.
\<close>

function fabrikLoop ::
  "real list \<Rightarrow> Point \<Rightarrow> Point \<Rightarrow> real \<Rightarrow> real \<Rightarrow> nat \<Rightarrow> Point list \<Rightarrow> Point list" where
  "fabrikLoop lengths rootPt target iterations tolerance iter solvedChain =
     (if distance (solvedChain ! (length solvedChain - 1)) target > tolerance
         \<and> real iter < iterations
      then fabrikLoop lengths rootPt target iterations tolerance (iter + 1)
             (fabrikRound lengths rootPt target solvedChain)
      else solvedChain)"
  by pat_completeness auto
termination
  by (relation "measure (\<lambda>(lengths, rootPt, target, iterations, tolerance, iter, c).
         nat \<lceil>iterations\<rceil> - iter)")
     (auto, linarith)

declare fabrikLoop.simps [simp del]

definition solveFabrik :: "Point list \<Rightarrow> Point \<Rightarrow> real \<Rightarrow> real \<Rightarrow> Point list" where
  "solveFabrik chain target iterations tolerance =
     (if length chain = 0 then []
      else
        (let solvedChain = chain;
             lengths = segmentLengths solvedChain;
             totalLength = foldl (+) 0 lengths;
             rootPt = solvedChain ! 0;
             distToTarget = distance rootPt target
         in if distToTarget > totalLength
            then fold (stretchStep lengths target) [0 ..< length solvedChain - 1] solvedChain
            else fabrikLoop lengths rootPt target iterations tolerance 0 solvedChain))"

text \<open>The point at parameter \<open>s\<close> on the ray from \<open>p\<close> through \<open>t\<close>.\<close>

definition onRay :: "Point \<Rightarrow> Point \<Rightarrow> real \<Rightarrow> Point" where
  "onRay p t s = \<lparr>px = px p + s * (px t - px p), py = py p + s * (py t - py p)\<rparr>"

subsection \<open>\<^verbatim>\<open>solveFabrik\<close> on a store\<close>

text \<open>
  Whether \<^verbatim>\<open>solveFabrik\<close> writes to its argument is a question about shared
  objects, so the function is modelled a second time on an explicit store: the point
  objects, addressed by their index in \<open>objs\<close>, and the arrays of references to them,
  addressed by their index in \<open>arrs\<close>. Allocation appends. The array \<^verbatim>\<open>lengths\<close>
  holds numbers, is local and is never written after it is built; it stays a list.
\<close>

record Heap =
  objs :: "Point list"
  arrs :: "nat list list"

definition allocObj :: "Point \<Rightarrow> Heap \<Rightarrow> nat \<times> Heap" where
  "allocObj p h = (length (objs h), h\<lparr>objs := objs h @ [p]\<rparr>)"

definition allocArr :: "nat list \<Rightarrow> Heap \<Rightarrow> nat \<times> Heap" where
  "allocArr refs h = (length (arrs h), h\<lparr>arrs := arrs h @ [refs]\<rparr>)"

text \<open>The read \<^verbatim>\<open>arr[i]\<close> of a point and the write \<^verbatim>\<open>arr[i] = ref\<close>.\<close>

definition getSlot :: "Heap \<Rightarrow> nat \<Rightarrow> nat \<Rightarrow> Point" where
  "getSlot h r i = objs h ! (arrs h ! r ! i)"

definition setSlot :: "nat \<Rightarrow> nat \<Rightarrow> nat \<Rightarrow> Heap \<Rightarrow> Heap" where
  "setSlot r i a h = h\<lparr>arrs := (arrs h)[r := (arrs h ! r)[i := a]]\<rparr>"

text \<open>
  The assignment \<^verbatim>\<open>arr[i] = { x: ..., y: ... }\<close> (or \<^verbatim>\<open>= { ...p }\<close>): a new object,
  then the write of its reference.
\<close>

definition storeNew :: "nat \<Rightarrow> nat \<Rightarrow> Point \<Rightarrow> Heap \<Rightarrow> Heap" where
  "storeNew r i p h = (case allocObj p h of (a, h1) \<Rightarrow> setSlot r i a h1)"

text \<open>\<^verbatim>\<open>chain.map(p => ({ ...p }))\<close>: a copy of every point, then the array of the copies.\<close>

definition copyChain :: "nat \<Rightarrow> Heap \<Rightarrow> nat \<times> Heap" where
  "copyChain chain h =
     (case fold (\<lambda>a (refs, h1). case allocObj (objs h1 ! a) h1 of (b, h2) \<Rightarrow> (refs @ [b], h2))
             (arrs h ! chain) ([], h) of
        (refs, h1) \<Rightarrow> allocArr refs h1)"

definition segmentLengthsH :: "Heap \<Rightarrow> nat \<Rightarrow> real list" where
  "segmentLengthsH h r =
     map (\<lambda>i. distance (getSlot h r i) (getSlot h r (i + 1)))
       [0 ..< length (arrs h ! r) - 1]"

definition stretchStepH :: "real list \<Rightarrow> nat \<Rightarrow> nat \<Rightarrow> nat \<Rightarrow> Heap \<Rightarrow> Heap" where
  "stretchStepH lengths t r i h =
     (let target = objs h ! t;
          d = distance (getSlot h r i) target;
          lambda = lengths ! i / d
      in storeNew r (i + 1)
           \<lparr>px = (1 - lambda) * px (getSlot h r i) + lambda * px target,
            py = (1 - lambda) * py (getSlot h r i) + lambda * py target\<rparr> h)"

definition forwardStepH :: "real list \<Rightarrow> nat \<Rightarrow> nat \<Rightarrow> Heap \<Rightarrow> Heap" where
  "forwardStepH lengths r i h =
     (let d = distance (getSlot h r i) (getSlot h r (i + 1));
          lambda = lengths ! i / d
      in storeNew r i
           \<lparr>px = (1 - lambda) * px (getSlot h r (i + 1)) + lambda * px (getSlot h r i),
            py = (1 - lambda) * py (getSlot h r (i + 1)) + lambda * py (getSlot h r i)\<rparr> h)"

definition backwardStepH :: "real list \<Rightarrow> nat \<Rightarrow> nat \<Rightarrow> Heap \<Rightarrow> Heap" where
  "backwardStepH lengths r i h =
     (let d = distance (getSlot h r i) (getSlot h r (i + 1));
          lambda = lengths ! i / d
      in storeNew r (i + 1)
           \<lparr>px = (1 - lambda) * px (getSlot h r i) + lambda * px (getSlot h r (i + 1)),
            py = (1 - lambda) * py (getSlot h r i) + lambda * py (getSlot h r (i + 1))\<rparr> h)"

definition fabrikRoundH :: "real list \<Rightarrow> nat \<Rightarrow> nat \<Rightarrow> nat \<Rightarrow> Heap \<Rightarrow> Heap" where
  "fabrikRoundH lengths rootA t r h =
     (let n = length (arrs h ! r);
          h1 = storeNew r (n - 1) (objs h ! t) h;
          h2 = fold (forwardStepH lengths r) (rev [0 ..< n - 1]) h1;
          h3 = storeNew r 0 (objs h2 ! rootA) h2
      in fold (backwardStepH lengths r) [0 ..< n - 1] h3)"

function fabrikLoopH ::
  "real list \<Rightarrow> nat \<Rightarrow> nat \<Rightarrow> real \<Rightarrow> real \<Rightarrow> nat \<Rightarrow> nat \<Rightarrow> Heap \<Rightarrow> Heap" where
  "fabrikLoopH lengths rootA t iterations tolerance r iter h =
     (if distance (getSlot h r (length (arrs h ! r) - 1)) (objs h ! t) > tolerance
         \<and> real iter < iterations
      then fabrikLoopH lengths rootA t iterations tolerance r (iter + 1)
             (fabrikRoundH lengths rootA t r h)
      else h)"
  by pat_completeness auto
termination
  by (relation "measure (\<lambda>(lengths, rootA, t, iterations, tolerance, r, iter, h).
         nat \<lceil>iterations\<rceil> - iter)")
     (auto, linarith)

declare fabrikLoopH.simps [simp del]

text \<open>
  The function: \<open>chain\<close> is the address of the argument array, \<open>t\<close> the address of the
  target point; the result is the address of the returned array and the store after
  the call.
\<close>

definition solveFabrikH :: "Heap \<Rightarrow> nat \<Rightarrow> nat \<Rightarrow> real \<Rightarrow> real \<Rightarrow> nat \<times> Heap" where
  "solveFabrikH h chain t iterations tolerance =
     (if length (arrs h ! chain) = 0 then allocArr [] h
      else
        (case copyChain chain h of
           (solvedChain, h1) \<Rightarrow>
             (let lengths = segmentLengthsH h1 solvedChain;
                  totalLength = foldl (+) 0 lengths
              in case allocObj (getSlot h1 solvedChain 0) h1 of
                   (rootA, h2) \<Rightarrow>
                     (let distToTarget = distance (objs h2 ! rootA) (objs h2 ! t)
                      in if distToTarget > totalLength
                         then (solvedChain,
                               fold (stretchStepH lengths t solvedChain)
                                 [0 ..< length (arrs h2 ! solvedChain) - 1] h2)
                         else (solvedChain,
                               fabrikLoopH lengths rootA t iterations tolerance
                                 solvedChain 0 h2)))))"

text \<open>
  The points an array holds, in order; an array whose references all name an object;
  and a store that still holds everything an earlier store held, at the same
  addresses.
\<close>

definition readArr :: "Heap \<Rightarrow> nat \<Rightarrow> Point list" where
  "readArr h r = map (nth (objs h)) (arrs h ! r)"

definition wfArr :: "Heap \<Rightarrow> nat \<Rightarrow> bool" where
  "wfArr h r = (r < length (arrs h) \<and> list_all (\<lambda>a. a < length (objs h)) (arrs h ! r))"

definition keeps :: "Heap \<Rightarrow> Heap \<Rightarrow> bool" where
  "keeps h0 h =
     (length (objs h0) \<le> length (objs h) \<and> take (length (objs h0)) (objs h) = objs h0
      \<and> length (arrs h0) \<le> length (arrs h) \<and> take (length (arrs h0)) (arrs h) = arrs h0)"

text \<open>
  The state the loops keep: the working array \<open>r\<close> is well formed and has \<open>n\<close> slots,
  the target object \<open>t\<close> holds \<open>tv\<close> and the object \<open>rootA\<close> holds \<open>rv\<close>.
\<close>

definition loopInv :: "nat \<Rightarrow> nat \<Rightarrow> nat \<Rightarrow> Point \<Rightarrow> nat \<Rightarrow> Point \<Rightarrow> Heap \<Rightarrow> bool" where
  "loopInv r n t tv rootA rv h =
     (wfArr h r \<and> length (arrs h ! r) = n
      \<and> t < length (objs h) \<and> objs h ! t = tv
      \<and> rootA < length (objs h) \<and> objs h ! rootA = rv)"

text \<open>A store with a chain of three points (array 0) and a target (object 3).\<close>

definition sampleHeap :: Heap where
  "sampleHeap =
     \<lparr>objs = [\<lparr>px = 0, py = 0\<rparr>, \<lparr>px = 0, py = 1\<rparr>, \<lparr>px = 1, py = 1\<rparr>, \<lparr>px = 5, py = 0\<rparr>],
      arrs = [[0, 1, 2]]\<rparr>"

section \<open>The physics step on JavaScript numbers and shared objects\<close>

text \<open>
  Whether a particle ends inside the bounds for every \<open>dt\<close> and every body depends on
  what the real numbers leave out: a \<^verbatim>\<open>number\<close> can be an infinity or NaN, a product
  can overflow, every comparison with NaN is false, and two fields can hold the same
  position object. \<^verbatim>\<open>updatePhysicsBody\<close> is therefore modelled a second time, on
  such numbers and on a store of position objects.

  A number is a real (\<open>Fin\<close>), an infinity or NaN. A finite result is kept exact
  (rounding to 53 bits and the sign of zero are not modelled); a result of magnitude
  \<open>2 ^ 1024\<close> or more overflows to the infinity of its sign.
\<close>

datatype jsnum = Fin real | PosInf | NegInf | NaN

definition jsOfReal :: "real \<Rightarrow> jsnum" where
  "jsOfReal x =
     (if x \<ge> 2 ^ 1024 then PosInf else if x \<le> - (2 ^ 1024) then NegInf else Fin x)"

fun jneg :: "jsnum \<Rightarrow> jsnum" where
  "jneg (Fin x) = Fin (- x)"
| "jneg PosInf = NegInf"
| "jneg NegInf = PosInf"
| "jneg NaN = NaN"

fun jadd :: "jsnum \<Rightarrow> jsnum \<Rightarrow> jsnum" where
  "jadd NaN b = NaN"
| "jadd a NaN = NaN"
| "jadd PosInf NegInf = NaN"
| "jadd NegInf PosInf = NaN"
| "jadd PosInf b = PosInf"
| "jadd a PosInf = PosInf"
| "jadd NegInf b = NegInf"
| "jadd a NegInf = NegInf"
| "jadd (Fin x) (Fin y) = jsOfReal (x + y)"

definition jsub :: "jsnum \<Rightarrow> jsnum \<Rightarrow> jsnum" where
  "jsub a b = jadd a (jneg b)"

text \<open>The infinity with the sign of \<open>x\<close> (for \<open>x \<noteq> 0\<close>), or its opposite.\<close>

definition infOfSign :: "real \<Rightarrow> jsnum" where
  "infOfSign x = (if x > 0 then PosInf else NegInf)"

fun jmul :: "jsnum \<Rightarrow> jsnum \<Rightarrow> jsnum" where
  "jmul NaN b = NaN"
| "jmul a NaN = NaN"
| "jmul PosInf PosInf = PosInf"
| "jmul PosInf NegInf = NegInf"
| "jmul NegInf PosInf = NegInf"
| "jmul NegInf NegInf = PosInf"
| "jmul PosInf (Fin y) = (if y = 0 then NaN else infOfSign y)"
| "jmul NegInf (Fin y) = (if y = 0 then NaN else infOfSign (- y))"
| "jmul (Fin x) PosInf = (if x = 0 then NaN else infOfSign x)"
| "jmul (Fin x) NegInf = (if x = 0 then NaN else infOfSign (- x))"
| "jmul (Fin x) (Fin y) = jsOfReal (x * y)"

text \<open>Division; a zero divisor counts as the positive zero.\<close>

fun jdiv :: "jsnum \<Rightarrow> jsnum \<Rightarrow> jsnum" where
  "jdiv NaN b = NaN"
| "jdiv a NaN = NaN"
| "jdiv PosInf PosInf = NaN"
| "jdiv PosInf NegInf = NaN"
| "jdiv NegInf PosInf = NaN"
| "jdiv NegInf NegInf = NaN"
| "jdiv PosInf (Fin y) = (if y \<ge> 0 then PosInf else NegInf)"
| "jdiv NegInf (Fin y) = (if y \<ge> 0 then NegInf else PosInf)"
| "jdiv (Fin x) PosInf = Fin 0"
| "jdiv (Fin x) NegInf = Fin 0"
| "jdiv (Fin x) (Fin y) =
     (if y = 0 then (if x = 0 then NaN else infOfSign x) else jsOfReal (x / y))"

text \<open>The comparisons \<^verbatim>\<open><\<close>, \<^verbatim>\<open>>\<close> and \<^verbatim>\<open><=\<close>: false as soon as one side is NaN.\<close>

fun jlt :: "jsnum \<Rightarrow> jsnum \<Rightarrow> bool" where
  "jlt NaN b = False"
| "jlt a NaN = False"
| "jlt a NegInf = False"
| "jlt NegInf b = True"
| "jlt PosInf b = False"
| "jlt a PosInf = True"
| "jlt (Fin x) (Fin y) = (x < y)"

definition jgt :: "jsnum \<Rightarrow> jsnum \<Rightarrow> bool" where
  "jgt a b = jlt b a"

definition jle :: "jsnum \<Rightarrow> jsnum \<Rightarrow> bool" where
  "jle a b = (a \<noteq> NaN \<and> b \<noteq> NaN \<and> \<not> jlt b a)"

text \<open>
  \<^verbatim>\<open>Math.hypot(a, b)\<close>: infinite as soon as one argument is, else NaN if one is, else
  the root of the sum of the squares.
\<close>

fun jhypot :: "jsnum \<Rightarrow> jsnum \<Rightarrow> jsnum" where
  "jhypot PosInf b = PosInf"
| "jhypot NegInf b = PosInf"
| "jhypot a PosInf = PosInf"
| "jhypot a NegInf = PosInf"
| "jhypot NaN b = NaN"
| "jhypot a NaN = NaN"
| "jhypot (Fin x) (Fin y) = jsOfReal (sqrt (x * x + y * y))"

subsection \<open>Bodies on a store\<close>

text \<open>
  A position object is a point of two numbers in the store, addressed by its index.
  A particle holds the addresses of its \<^verbatim>\<open>pos\<close> and \<^verbatim>\<open>prevPos\<close> objects, so two
  fields can name one object. The joints of a target skeleton are addresses too.
  Particle objects themselves are not shared: each occurs once in the array.
\<close>

record JPoint =
  jx :: jsnum
  jy :: jsnum

record SParticle =
  sid :: string
  posRef :: nat
  prevPosRef :: nat
  smass :: jsnum

record SConstraint =
  aIndex :: nat
  bIndex :: nat
  sRestLength :: jsnum

record SBody =
  sparticles :: "SParticle list"
  sconstraints :: "SConstraint list"
  sparticleMap :: "(string \<times> nat) list"

type_synonym store = "JPoint list"

text \<open>Writes of one field of a position object, in place.\<close>

definition setX :: "nat \<Rightarrow> jsnum \<Rightarrow> store \<Rightarrow> store" where
  "setX a v h = h[a := (h ! a)\<lparr>jx := v\<rparr>]"

definition setY :: "nat \<Rightarrow> jsnum \<Rightarrow> store \<Rightarrow> store" where
  "setY a v h = h[a := (h ! a)\<lparr>jy := v\<rparr>]"

text \<open>
  The names every object inherits from \<^verbatim>\<open>Object.prototype\<close>. The read
  \<^verbatim>\<open>targetSkeleton.joints[p.id]\<close> finds an own joint, or, for one of these names, an
  inherited value that is truthy and has no \<^verbatim>\<open>x\<close> and \<^verbatim>\<open>y\<close>: both read
  \<^verbatim>\<open>undefined\<close>, which the subtraction turns into NaN.
\<close>

definition objectPrototypeKeys :: "string list" where
  "objectPrototypeKeys =
     [''constructor'', ''__defineGetter__'', ''__defineSetter__'', ''hasOwnProperty'',
      ''__lookupGetter__'', ''__lookupSetter__'', ''isPrototypeOf'',
      ''propertyIsEnumerable'', ''toString'', ''valueOf'', ''__proto__'',
      ''toLocaleString'']"

definition targetPosOf :: "store \<Rightarrow> (string \<times> nat) list \<Rightarrow> string \<Rightarrow> JPoint option" where
  "targetPosOf h js key =
     (case map_of js key of
        Some a \<Rightarrow> Some (h ! a)
      | None \<Rightarrow> if key \<in> set objectPrototypeKeys then Some \<lparr>jx = NaN, jy = NaN\<rparr> else None)"

text \<open>
  Phase 1 for one particle. \<^verbatim>\<open>p.prevPos = { ...p.pos }\<close> allocates a copy and
  stores its address in the particle; the two \<^verbatim>\<open>+=\<close> write the \<^verbatim>\<open>pos\<close> object in
  place. The result is the particle and the store afterwards.
\<close>

definition integrateS ::
  "jsnum \<Rightarrow> (string \<times> nat) list option \<Rightarrow> SParticle \<Rightarrow> store \<Rightarrow> SParticle \<times> store" where
  "integrateS dtSq targetJoints p h =
     (if smass p = Fin 0 then (p, h)
      else
        (let velocity =
               \<lparr>jx = jmul (jsub (jx (h ! posRef p)) (jx (h ! prevPosRef p))) (Fin FRICTION),
                jy = jmul (jsub (jy (h ! posRef p)) (jy (h ! prevPosRef p))) (Fin FRICTION)\<rparr>;
             p1 = p\<lparr>prevPosRef := length h\<rparr>;
             h1 = h @ [h ! posRef p];
             accel0 = \<lparr>jx = Fin (px GRAVITY), jy = Fin (py GRAVITY)\<rparr>;
             accel =
               (case targetJoints of
                  None \<Rightarrow> accel0
                | Some js \<Rightarrow>
                    (case targetPosOf h1 js (sid p1) of
                       None \<Rightarrow> accel0
                     | Some targetPos \<Rightarrow>
                         (let springForce =
                                \<lparr>jx = jmul (jsub (jx targetPos) (jx (h1 ! posRef p1)))
                                        (Fin STIFFNESS),
                                 jy = jmul (jsub (jy targetPos) (jy (h1 ! posRef p1)))
                                        (Fin STIFFNESS)\<rparr>;
                              dampingForce =
                                \<lparr>jx = jmul (jneg (jx velocity)) (Fin DAMPING),
                                 jy = jmul (jneg (jy velocity)) (Fin DAMPING)\<rparr>;
                              totalForce =
                                \<lparr>jx = jadd (jx springForce) (jx dampingForce),
                                 jy = jadd (jy springForce) (jy dampingForce)\<rparr>
                          in \<lparr>jx = jadd (jx accel0) (jdiv (jx totalForce) (smass p1)),
                              jy = jadd (jy accel0) (jdiv (jy totalForce) (smass p1))\<rparr>)));
             h2 = setX (posRef p1)
                    (jadd (jx (h1 ! posRef p1)) (jadd (jx velocity) (jmul (jx accel) dtSq))) h1;
             h3 = setY (posRef p1)
                    (jadd (jy (h2 ! posRef p1)) (jadd (jy velocity) (jmul (jy accel) dtSq))) h2
         in (p1, h3)))"

text \<open>The first \<^verbatim>\<open>forEach\<close>: the particles in order, each on the store the last left.\<close>

fun integrateAll ::
  "jsnum \<Rightarrow> (string \<times> nat) list option \<Rightarrow> SParticle list \<Rightarrow> store
     \<Rightarrow> SParticle list \<times> store" where
  "integrateAll dtSq targetJoints [] h = ([], h)"
| "integrateAll dtSq targetJoints (p # ps) h =
     (case integrateS dtSq targetJoints p h of
        (p', h') \<Rightarrow>
          (case integrateAll dtSq targetJoints ps h' of
             (ps', h'') \<Rightarrow> (p' # ps', h'')))"

text \<open>
  Phase 2 for one constraint: the four \<^verbatim>\<open>+=\<close> and \<^verbatim>\<open>-=\<close> are writes in place, in
  the order of the source, each reading the store the last one left.
\<close>

definition relaxConstraintS ::
  "SParticle list \<Rightarrow> SConstraint \<Rightarrow> store \<Rightarrow> error option \<times> store" where
  "relaxConstraintS ps c h =
     (if aIndex c < length ps \<and> bIndex c < length ps then
        (let pA = ps ! aIndex c;
             pB = ps ! bIndex c;
             delta = \<lparr>jx = jsub (jx (h ! posRef pB)) (jx (h ! posRef pA)),
                      jy = jsub (jy (h ! posRef pB)) (jy (h ! posRef pA))\<rparr>;
             dist = jhypot (jx delta) (jy delta)
         in if jlt dist (Fin 0.001) then (None, h)
            else
              (let diff = jdiv (jsub dist (sRestLength c)) dist;
                   totalMass = jadd (smass pA) (smass pB)
               in if totalMass = Fin 0 then (None, h)
                  else
                    (let pAShare =
                           (if jgt (smass pA) (Fin 0) then jdiv (smass pA) totalMass
                            else Fin 1);
                         pBShare =
                           (if jgt (smass pB) (Fin 0) then jdiv (smass pB) totalMass
                            else Fin 1);
                         h1 = setX (posRef pA)
                                (jadd (jx (h ! posRef pA))
                                   (jmul (jmul (jx delta) diff) pBShare)) h;
                         h2 = setY (posRef pA)
                                (jadd (jy (h1 ! posRef pA))
                                   (jmul (jmul (jy delta) diff) pBShare)) h1;
                         h3 = setX (posRef pB)
                                (jsub (jx (h2 ! posRef pB))
                                   (jmul (jmul (jx delta) diff) pAShare)) h2;
                         h4 = setY (posRef pB)
                                (jsub (jy (h3 ! posRef pB))
                                   (jmul (jmul (jy delta) diff) pAShare)) h3
                     in (None, h4))))
      else (Some TypeError, h))"

fun relaxLoopS ::
  "nat \<Rightarrow> SParticle list \<Rightarrow> SConstraint list \<Rightarrow> store \<Rightarrow> error option \<times> store" where
  "relaxLoopS 0 ps cs h = (None, h)"
| "relaxLoopS (Suc n) ps cs h =
     (case foldE (relaxConstraintS ps) cs h of
        (Some e, h') \<Rightarrow> (Some e, h')
      | (None, h') \<Rightarrow> relaxLoopS n ps cs h')"

text \<open>Phase 3 for one particle: every assignment is a write in place.\<close>

definition collideS :: "SParticle \<Rightarrow> store \<Rightarrow> store" where
  "collideS p h =
     (let h3 =
            (if jgt (jy (h ! posRef p)) (Fin GROUND_PLANE_Y) then
               (let vel = \<lparr>jx = jsub (jx (h ! posRef p)) (jx (h ! prevPosRef p)),
                           jy = jsub (jy (h ! posRef p)) (jy (h ! prevPosRef p))\<rparr>;
                    h1 = setY (posRef p) (Fin GROUND_PLANE_Y) h;
                    h2 = setY (prevPosRef p)
                           (jadd (jy (h1 ! posRef p)) (jmul (jy vel) (Fin 0.1))) h1
                in if includesStr (sid p) ''foot''
                   then setX (prevPosRef p) (jx (h2 ! posRef p)) h2
                   else setX (prevPosRef p)
                          (jsub (jx (h2 ! posRef p)) (jmul (jx vel) (Fin GROUND_FRICTION))) h2)
             else h);
          h4 = (if jlt (jx (h3 ! posRef p)) (Fin 10) then setX (posRef p) (Fin 10) h3 else h3);
          h5 = (if jgt (jx (h4 ! posRef p)) (Fin (W - 10))
                then setX (posRef p) (Fin (W - 10)) h4 else h4)
      in h5)"

text \<open>
  The step: the body and the store after the call, and the exception that ended it
  early, if any.
\<close>

definition updatePhysicsBodyS ::
  "SBody \<Rightarrow> store \<Rightarrow> jsnum \<Rightarrow> (string \<times> nat) list option
     \<Rightarrow> error option \<times> SBody \<times> store" where
  "updatePhysicsBodyS body h dt targetJoints =
     (let dtSq = jmul dt dt
      in case integrateAll dtSq targetJoints (sparticles body) h of
           (ps1, h1) \<Rightarrow>
             (case relaxLoopS SOLVER_ITERATIONS ps1 (sconstraints body) h1 of
                (Some e, h2) \<Rightarrow> (Some e, body\<lparr>sparticles := ps1\<rparr>, h2)
              | (None, h2) \<Rightarrow> (None, body\<lparr>sparticles := ps1\<rparr>, fold collideS ps1 h2)))"

text \<open>
  The bounds of a position as the claim words them, with the comparisons of the
  language; the bounds on the coordinates that are not NaN; the position objects of a
  list of particles; and a body none of whose position objects is shared, all of them
  in the store.
\<close>

definition inBoundsJ :: "JPoint \<Rightarrow> bool" where
  "inBoundsJ q =
     (jle (jy q) (Fin GROUND_PLANE_Y) \<and> jle (Fin 10) (jx q) \<and> jle (jx q) (Fin (W - 10)))"

definition inBoundsOrNaN :: "JPoint \<Rightarrow> bool" where
  "inBoundsOrNaN q =
     ((jy q = NaN \<or> jle (jy q) (Fin GROUND_PLANE_Y))
      \<and> (jx q = NaN \<or> (jle (Fin 10) (jx q) \<and> jle (jx q) (Fin (W - 10)))))"

definition refsOf :: "SParticle list \<Rightarrow> nat list" where
  "refsOf ps = concat (map (\<lambda>p. [posRef p, prevPosRef p]) ps)"

definition unshared :: "SParticle list \<Rightarrow> store \<Rightarrow> bool" where
  "unshared ps h = (distinct (refsOf ps) \<and> list_all (\<lambda>a. a < length h) (refsOf ps))"

definition wellIndexedS :: "SBody \<Rightarrow> bool" where
  "wellIndexedS body =
     list_all (\<lambda>c. aIndex c < length (sparticles body) \<and> bIndex c < length (sparticles body))
       (sconstraints body)"

text \<open>
  A body of one particle of mass 1, with position and previous position in two
  objects, and two stores for it: one where it rests at \<open>(100, 100)\<close>, one where it
  rests at \<open>(5, 900)\<close>, left of the wall and under the ground.
\<close>

definition restingBody :: SBody where
  "restingBody =
     \<lparr>sparticles = [\<lparr>sid = ''a'', posRef = 0, prevPosRef = 1, smass = Fin 1\<rparr>],
      sconstraints = [], sparticleMap = [(''a'', 0)]\<rparr>"

definition restingStore :: store where
  "restingStore = [\<lparr>jx = Fin 100, jy = Fin 100\<rparr>, \<lparr>jx = Fin 100, jy = Fin 100\<rparr>]"

definition outsideStore :: store where
  "outsideStore = [\<lparr>jx = Fin 5, jy = Fin 900\<rparr>, \<lparr>jx = Fin 5, jy = Fin 900\<rparr>]"

text \<open>
  A body of two particles of mass 0 where the previous position of the second is the
  position object of the first: the first rests at \<open>(100, 700)\<close>, the second is at
  \<open>(100, 1600)\<close>, under the ground.
\<close>

definition sharedBody :: SBody where
  "sharedBody =
     \<lparr>sparticles = [\<lparr>sid = ''a'', posRef = 0, prevPosRef = 1, smass = Fin 0\<rparr>,
                    \<lparr>sid = ''b'', posRef = 2, prevPosRef = 0, smass = Fin 0\<rparr>],
      sconstraints = [], sparticleMap = [(''a'', 0), (''b'', 1)]\<rparr>"

definition sharedStore :: store where
  "sharedStore = [\<lparr>jx = Fin 100, jy = Fin 700\<rparr>, \<lparr>jx = Fin 100, jy = Fin 700\<rparr>,
                  \<lparr>jx = Fin 100, jy = Fin 1600\<rparr>]"

section \<open>Results\<close>

lemma map_of_hierarchy_None: "key \<notin> set hierarchyKeys \<Longrightarrow> map_of hierarchy key = None"
  by (simp add: hierarchyKeys_def map_of_eq_None_iff)

lemma hierarchy_parents:
  "(key, node) \<in> set hierarchy \<Longrightarrow>
     parent node \<in> {None, Some ''ground'', Some ''root'', Some ''torso'', Some ''waist'',
       Some ''left.shoulder'', Some ''left.elbow'', Some ''right.shoulder'', Some ''right.elbow'',
       Some ''left.hip'', Some ''left.knee'', Some ''right.hip'', Some ''right.knee''}"
  by (auto simp: hierarchy_def)

lemma gpwa_of_parent:
  assumes "map_of hierarchy key = Some node"
    and "parent node \<in> {None, Some ''ground'', Some ''root'', Some ''torso'', Some ''waist'',
       Some ''left.shoulder'', Some ''left.elbow'', Some ''right.shoulder'', Some ''right.elbow'',
       Some ''left.hip'', Some ''left.knee'', Some ''right.hip'', Some ''right.knee''}"
  shows "getParentWorldAngle key pose \<noteq> Inr None \<and> getParentWorldAngle key pose \<noteq> Inl TypeError"
  using assms(2) by (auto simp: getParentWorldAngle_def assms(1) poseSide_def)

lemma getParentWorldAngle_never_null:
  "getParentWorldAngle key pose \<noteq> Inr None \<and> getParentWorldAngle key pose \<noteq> Inl TypeError"
proof (cases "map_of hierarchy key")
  case None
  then show ?thesis by (simp add: getParentWorldAngle_def)
next
  case (Some node)
  then have "(key, node) \<in> set hierarchy" by (rule map_of_SomeD)
  then show ?thesis using gpwa_of_parent [OF Some] hierarchy_parents by blast
qed

text \<open>
  C5. The claim: for a key that is not in the hierarchy, \<open>getParentWorldAngle\<close> returns
  \<^verbatim>\<open>null\<close>, never a number. The bone key \<^verbatim>\<open>'neck'\<close> is not a key of the
  hierarchy, and at the default pose the function returns the number 0 for it.
\<close>

theorem getParentWorldAngle_neck_counterexample:
  "''neck'' \<notin> set hierarchyKeys
   \<and> getParentWorldAngle ''neck'' getDefaultPose = Inr (Some 0)
   \<and> getParentWorldAngle ''neck'' getDefaultPose \<noteq> Inr None"
  by (simp add: getParentWorldAngle_def hierarchyKeys_def hierarchy_def)

text \<open>
  C5, as the code has it. For every pose and every key that is not a key of the
  hierarchy, the optional chain \<^verbatim>\<open>hierarchy[key]?.parent\<close> reads \<^verbatim>\<open>undefined\<close>, the
  guard \<^verbatim>\<open>if (!parentKey) return 0\<close> fires, and \<open>getParentWorldAngle\<close> returns the
  number 0, the value it also returns for the parentless key \<^verbatim>\<open>'ground'\<close>.
\<close>

theorem getParentWorldAngle_unknown_key_zero:
  "key \<notin> set hierarchyKeys \<Longrightarrow>
     getParentWorldAngle key pose = Inr (Some 0)
     \<and> getParentWorldAngle key pose = getParentWorldAngle ''ground'' pose"
  by (simp add: getParentWorldAngle_def map_of_hierarchy_None) (simp add: hierarchy_def)

theorem getParentWorldAngle_unknown_key_zero_witness:
  "''neck'' \<notin> set hierarchyKeys
   \<and> getParentWorldAngle ''neck'' getDefaultPose = Inr (Some 0)
   \<and> getParentWorldAngle ''neck'' getDefaultPose = getParentWorldAngle ''ground'' getDefaultPose"
proof -
  have k: "''neck'' \<notin> set hierarchyKeys"
    by (simp add: hierarchyKeys_def hierarchy_def)
  from getParentWorldAngle_unknown_key_zero [OF k, of getDefaultPose] k show ?thesis by blast
qed

subsection \<open>Forward kinematics\<close>

lemma find_map_of:
  "map_option f (find (\<lambda>b. k b = key) bs) = map_of (map (\<lambda>b. (k b, f b)) bs) key"
  by (induction bs) auto

lemma boneAngle_map_of:
  "boneAngle key sk = map_of (map (\<lambda>b. (bkey b, angle b)) (bones sk)) key"
  unfolding boneAngle_def by (rule find_map_of)

text \<open>The segments of a skeleton, in the order they are pushed, with their angles.\<close>

lemma bone_angles:
  "map (\<lambda>b. (bkey b, angle b)) (bones (computeSkeleton pose)) =
   [(''ground'', groundTilt pose),
    (''torso'', groundTilt pose + torso pose),
    (''waist'', groundTilt pose + waist pose),
    (''neck'', groundTilt pose + torso pose),
    (''head'', groundTilt pose + torso pose + head pose),
    (''left.shoulder'', groundTilt pose + torso pose + shoulder (left pose)),
    (''left.elbow'', groundTilt pose + torso pose + shoulder (left pose) + elbow (left pose)),
    (''left.hand'',
       groundTilt pose + torso pose + shoulder (left pose) + elbow (left pose) + hand (left pose)),
    (''right.shoulder'', groundTilt pose + torso pose + shoulder (right pose)),
    (''right.elbow'', groundTilt pose + torso pose + shoulder (right pose) + elbow (right pose)),
    (''right.hand'',
       groundTilt pose + torso pose + shoulder (right pose) + elbow (right pose)
         + hand (right pose)),
    (''left.hip'', groundTilt pose + waist pose + hip (left pose) - pi / 2),
    (''left.knee'', groundTilt pose + waist pose + hip (left pose) + knee (left pose) - pi / 2),
    (''left.foot'',
       groundTilt pose + waist pose + hip (left pose) + knee (left pose) + foot (left pose)
         - pi / 2),
    (''right.hip'', groundTilt pose + waist pose + hip (right pose) - pi / 2),
    (''right.knee'', groundTilt pose + waist pose + hip (right pose) + knee (right pose) - pi / 2),
    (''right.foot'',
       groundTilt pose + waist pose + hip (right pose) + knee (right pose) + foot (right pose)
         - pi / 2)]"
  by (simp add: computeSkeleton_def Let_def armSide_def legSide_def storeJoint_def storeBone_def)

lemma gpwa_values:
  "getParentWorldAngle ''torso'' pose = Inr (Some (groundTilt pose))"
  "getParentWorldAngle ''waist'' pose = Inr (Some (groundTilt pose))"
  "getParentWorldAngle ''head'' pose = Inr (Some (groundTilt pose + torso pose))"
  "getParentWorldAngle ''left.shoulder'' pose = Inr (Some (groundTilt pose + torso pose))"
  "getParentWorldAngle ''left.elbow'' pose =
     Inr (Some (groundTilt pose + torso pose + shoulder (left pose)))"
  "getParentWorldAngle ''left.hand'' pose =
     Inr (Some (groundTilt pose + torso pose + shoulder (left pose) + elbow (left pose)))"
  "getParentWorldAngle ''right.shoulder'' pose = Inr (Some (groundTilt pose + torso pose))"
  "getParentWorldAngle ''right.elbow'' pose =
     Inr (Some (groundTilt pose + torso pose + shoulder (right pose)))"
  "getParentWorldAngle ''right.hand'' pose =
     Inr (Some (groundTilt pose + torso pose + shoulder (right pose) + elbow (right pose)))"
  "getParentWorldAngle ''left.hip'' pose = Inr (Some (groundTilt pose + waist pose))"
  "getParentWorldAngle ''left.knee'' pose =
     Inr (Some (groundTilt pose + waist pose + hip (left pose)))"
  "getParentWorldAngle ''left.foot'' pose =
     Inr (Some (groundTilt pose + waist pose + hip (left pose) + knee (left pose)))"
  "getParentWorldAngle ''right.hip'' pose = Inr (Some (groundTilt pose + waist pose))"
  "getParentWorldAngle ''right.knee'' pose =
     Inr (Some (groundTilt pose + waist pose + hip (right pose)))"
  "getParentWorldAngle ''right.foot'' pose =
     Inr (Some (groundTilt pose + waist pose + hip (right pose) + knee (right pose)))"
  "getParentWorldAngle ''root'' pose = Inr (Some (groundTilt pose))"
  "getParentWorldAngle ''ground'' pose = Inr (Some 0)"
  by (simp_all add: getParentWorldAngle_def hierarchy_def poseSide_def)

lemma localAngleOf_values:
  "localAngleOf ''torso'' pose = Some (torso pose)"
  "localAngleOf ''waist'' pose = Some (waist pose)"
  "localAngleOf ''head'' pose = Some (head pose)"
  "localAngleOf ''left.shoulder'' pose = Some (shoulder (left pose))"
  "localAngleOf ''left.elbow'' pose = Some (elbow (left pose))"
  "localAngleOf ''left.hand'' pose = Some (hand (left pose))"
  "localAngleOf ''right.shoulder'' pose = Some (shoulder (right pose))"
  "localAngleOf ''right.elbow'' pose = Some (elbow (right pose))"
  "localAngleOf ''right.hand'' pose = Some (hand (right pose))"
  "localAngleOf ''left.hip'' pose = Some (hip (left pose))"
  "localAngleOf ''left.knee'' pose = Some (knee (left pose))"
  "localAngleOf ''left.foot'' pose = Some (foot (left pose))"
  "localAngleOf ''right.hip'' pose = Some (hip (right pose))"
  "localAngleOf ''right.knee'' pose = Some (knee (right pose))"
  "localAngleOf ''right.foot'' pose = Some (foot (right pose))"
  by (simp_all add: localAngleOf_def poseSide_def sideField_def)

text \<open>
  C2. The claim: on every joint of the hierarchy the recorded segment angle is
  \<open>groundTilt\<close> plus the local angles down to the joint, that is, the parent frame of
  \<open>getParentWorldAngle\<close> plus the joint's local angle. At the default pose the segment
  of \<^verbatim>\<open>left.hip\<close> does not carry that angle.
\<close>

theorem fk_composition_left_hip_counterexample:
  "\<not> fkComposition 0 getDefaultPose ''left.hip''"
  by (simp add: fkComposition_def gpwa_values localAngleOf_values boneAngle_map_of bone_angles)

text \<open>
  C2, as the code has it. For every pose: the segments of \<^verbatim>\<open>torso\<close>, \<^verbatim>\<open>waist\<close>,
  \<^verbatim>\<open>head\<close> and of the six arm joints carry the parent frame plus the local angle;
  the segments of the six leg joints (hip, knee, foot) carry that sum minus \<open>pi / 2\<close>,
  the quarter turn \<^verbatim>\<open>computeSkeleton\<close> subtracts when it stores them; the
  \<^verbatim>\<open>ground\<close> segment carries \<open>groundTilt\<close>; \<^verbatim>\<open>root\<close> has no segment; and the
  segment of \<^verbatim>\<open>left.elbow\<close> carries \<open>groundTilt + torso + left.shoulder + left.elbow\<close>.
\<close>

theorem fk_composition_arms_and_legs:
  "list_all (fkComposition 0 pose) ([''torso'', ''waist'', ''head''] @ armKeys)
   \<and> list_all (fkComposition (- pi / 2) pose) legKeys
   \<and> boneAngle ''ground'' (computeSkeleton pose) = Some (groundTilt pose)
   \<and> boneAngle ''root'' (computeSkeleton pose) = None
   \<and> boneAngle ''left.elbow'' (computeSkeleton pose) =
       Some (groundTilt pose + torso pose + shoulder (left pose) + elbow (left pose))"
  by (simp add: fkComposition_def armKeys_def legKeys_def gpwa_values localAngleOf_values
      boneAngle_map_of bone_angles)

subsection \<open>Pose interpolation\<close>

text \<open>
  C6. For every pair of poses and both easings, \<open>interpolatePose\<close> at \<open>t = 0\<close> is the
  first pose and at \<open>t = 1\<close> the second, on every field; at \<open>t = 1/2\<close> with the linear
  easing it is the field-wise arithmetic mean; and \<open>t\<close> is clamped to \<open>[0, 1]\<close> before
  use: every \<open>t\<close> gives the result of its clamped value, so every \<open>t\<close> at or below 0
  gives the first pose and every \<open>t\<close> at or above 1 the second.
\<close>

theorem interpolatePose_boundaries:
  "interpolatePose a b 0 e = Inr (poseToJ a)
   \<and> interpolatePose a b 1 e = Inr (poseToJ b)
   \<and> interpolatePose a b (1 / 2) Linear = Inr (poseToJ (meanPose a b))
   \<and> interpolatePose a b t e = interpolatePose a b (max 0 (min 1 t)) e
   \<and> interpolatePose a b (- \<bar>s\<bar>) e = Inr (poseToJ a)
   \<and> interpolatePose a b (1 + \<bar>s\<bar>) e = Inr (poseToJ b)"
proof -
  have at0: "interpolatePose a b 0 e = Inr (poseToJ a)"
    by (cases e) (simp_all add: interpolatePose_def poseToJ_def pointToJ_def sideToJ_def
        Let_def linearEase_def sineEase_def)
  have at1: "interpolatePose a b 1 e = Inr (poseToJ b)"
    by (cases e) (simp_all add: interpolatePose_def poseToJ_def pointToJ_def sideToJ_def
        Let_def linearEase_def sineEase_def)
  have mid: "interpolatePose a b (1 / 2) Linear = Inr (poseToJ (meanPose a b))"
    by (simp add: interpolatePose_def poseToJ_def pointToJ_def sideToJ_def Let_def
        linearEase_def meanPose_def meanSide_def field_simps)
  have clamp: "interpolatePose a b u e = interpolatePose a b (max 0 (min 1 u)) e" for u
    by (simp add: interpolatePose_def)
  have "max 0 (min 1 (- \<bar>s\<bar>)) = 0" "max 0 (min 1 (1 + \<bar>s\<bar>)) = 1"
    by simp_all
  then have below: "interpolatePose a b (- \<bar>s\<bar>) e = Inr (poseToJ a)"
    and above: "interpolatePose a b (1 + \<bar>s\<bar>) e = Inr (poseToJ b)"
    using clamp [of "- \<bar>s\<bar>"] clamp [of "1 + \<bar>s\<bar>"] at0 at1 by simp_all
  from at0 at1 mid clamp [of t] below above show ?thesis by simp
qed

subsection \<open>Body creation\<close>

lemma joints_computeSkeleton:
  "joints (computeSkeleton pose) =
   [(''root'', rootPosOf pose), (''ground'', groundPosOf pose),
    (''torso'', neckPosOf pose), (''waist'', waistEndOf pose), (''head'', neckPosOf pose),
    (''left.shoulder'', shoulderPosOf LeftSide pose),
    (''left.elbow'', elbowPosOf LeftSide pose),
    (''left.hand'', handPosOf LeftSide pose),
    (''right.shoulder'', shoulderPosOf RightSide pose),
    (''right.elbow'', elbowPosOf RightSide pose),
    (''right.hand'', handPosOf RightSide pose),
    (''left.hip'', hipPosOf LeftSide pose),
    (''left.knee'', kneePosOf LeftSide pose),
    (''left.foot'', footPosOf LeftSide pose),
    (''right.hip'', hipPosOf RightSide pose),
    (''right.knee'', kneePosOf RightSide pose),
    (''right.foot'', footPosOf RightSide pose)]"
  by (simp add: computeSkeleton_def Let_def armSide_def legSide_def storeJoint_def storeBone_def
      rootPosOf_def groundPosOf_def neckPosOf_def waistEndOf_def shoulderPosOf_def
      elbowPosOf_def handPosOf_def hipPosOf_def kneePosOf_def footPosOf_def)

lemma fold_addParticle_17:
  "fold addParticle
     [(''root'', p0), (''ground'', pg), (''torso'', p1), (''waist'', p2), (''head'', p3),
      (''left.shoulder'', p4), (''left.elbow'', p5), (''left.hand'', p6),
      (''right.shoulder'', p7), (''right.elbow'', p8), (''right.hand'', p9),
      (''left.hip'', p10), (''left.knee'', p11), (''left.foot'', p12),
      (''right.hip'', p13), (''right.knee'', p14), (''right.foot'', p15)] ([], []) =
   ([mkParticle ''root'' p0 3, mkParticle ''torso'' p1 3, mkParticle ''waist'' p2 3,
     mkParticle ''head'' p3 1,
     mkParticle ''left.shoulder'' p4 1, mkParticle ''left.elbow'' p5 1,
     mkParticle ''left.hand'' p6 (1/2),
     mkParticle ''right.shoulder'' p7 1, mkParticle ''right.elbow'' p8 1,
     mkParticle ''right.hand'' p9 (1/2),
     mkParticle ''left.hip'' p10 1, mkParticle ''left.knee'' p11 1,
     mkParticle ''left.foot'' p12 (1/2),
     mkParticle ''right.hip'' p13 1, mkParticle ''right.knee'' p14 1,
     mkParticle ''right.foot'' p15 (1/2)],
    [(''root'', 0), (''torso'', 1), (''waist'', 2), (''head'', 3),
     (''left.shoulder'', 4), (''left.elbow'', 5), (''left.hand'', 6),
     (''right.shoulder'', 7), (''right.elbow'', 8), (''right.hand'', 9),
     (''left.hip'', 10), (''left.knee'', 11), (''left.foot'', 12),
     (''right.hip'', 13), (''right.knee'', 14), (''right.foot'', 15)])"
  by (simp add: addParticle_def Let_def mkParticle_def)

lemma particles_create:
  "particles (createPhysicsBodyFromPose pose) =
    [mkParticle ''root'' (rootPosOf pose) 3, mkParticle ''torso'' (neckPosOf pose) 3,
     mkParticle ''waist'' (waistEndOf pose) 3, mkParticle ''head'' (neckPosOf pose) 1,
     mkParticle ''left.shoulder'' (shoulderPosOf LeftSide pose) 1,
     mkParticle ''left.elbow'' (elbowPosOf LeftSide pose) 1,
     mkParticle ''left.hand'' (handPosOf LeftSide pose) (1/2),
     mkParticle ''right.shoulder'' (shoulderPosOf RightSide pose) 1,
     mkParticle ''right.elbow'' (elbowPosOf RightSide pose) 1,
     mkParticle ''right.hand'' (handPosOf RightSide pose) (1/2),
     mkParticle ''left.hip'' (hipPosOf LeftSide pose) 1,
     mkParticle ''left.knee'' (kneePosOf LeftSide pose) 1,
     mkParticle ''left.foot'' (footPosOf LeftSide pose) (1/2),
     mkParticle ''right.hip'' (hipPosOf RightSide pose) 1,
     mkParticle ''right.knee'' (kneePosOf RightSide pose) 1,
     mkParticle ''right.foot'' (footPosOf RightSide pose) (1/2)]"
  unfolding createPhysicsBodyFromPose_def Let_def joints_computeSkeleton fold_addParticle_17
  by simp

lemma particleMap_create:
  "particleMap (createPhysicsBodyFromPose pose) =
    [(''root'', 0), (''torso'', 1), (''waist'', 2), (''head'', 3),
     (''left.shoulder'', 4), (''left.elbow'', 5), (''left.hand'', 6),
     (''right.shoulder'', 7), (''right.elbow'', 8), (''right.hand'', 9),
     (''left.hip'', 10), (''left.knee'', 11), (''left.foot'', 12),
     (''right.hip'', 13), (''right.knee'', 14), (''right.foot'', 15)]"
  unfolding createPhysicsBodyFromPose_def Let_def joints_computeSkeleton fold_addParticle_17
  by simp

lemma constraints_create:
  "constraints (createPhysicsBodyFromPose pose) =
     fold (addConstraints (particles (createPhysicsBodyFromPose pose))
             (particleMap (createPhysicsBodyFromPose pose))) hierarchy []"
  by (simp add: createPhysicsBodyFromPose_def Let_def)

lemma fold_addChildConstraint_inv:
  assumes "list_all P cs"
    and "\<And>childKey childIndex len.
           childKey \<in> set ks \<Longrightarrow> map_of pm childKey = Some childIndex \<Longrightarrow>
           len = hypot (px (pos (ps ! childIndex)) - px (pos (ps ! parentIndex)))
                       (py (pos (ps ! childIndex)) - py (pos (ps ! parentIndex))) \<Longrightarrow>
           len > 0.1 \<Longrightarrow>
           P \<lparr>particleAIndex = parentIndex, particleBIndex = childIndex, restLength = len\<rparr>"
  shows "list_all P (fold (addChildConstraint ps pm parentIndex) ks cs)"
  using assms
proof (induction ks arbitrary: cs)
  case Nil
  then show ?case by simp
next
  case (Cons k ks)
  have "list_all P (addChildConstraint ps pm parentIndex k cs)"
    using Cons.prems(1) Cons.prems(2) [of k]
    by (auto simp: addChildConstraint_def Let_def split: option.splits)
  moreover have "fold (addChildConstraint ps pm parentIndex) (k # ks) cs =
      fold (addChildConstraint ps pm parentIndex) ks (addChildConstraint ps pm parentIndex k cs)"
    by simp
  ultimately show ?case
    using Cons.IH [of "addChildConstraint ps pm parentIndex k cs"] Cons.prems(2)
    by (metis list.set_intros(2))
qed

lemma fold_addConstraints_inv:
  assumes "list_all P cs"
    and "\<And>entry parentIndex childKey childIndex len.
           entry \<in> set es \<Longrightarrow> map_of pm (fst entry) = Some parentIndex \<Longrightarrow>
           childKey \<in> set (children (snd entry)) \<Longrightarrow> map_of pm childKey = Some childIndex \<Longrightarrow>
           len = hypot (px (pos (ps ! childIndex)) - px (pos (ps ! parentIndex)))
                       (py (pos (ps ! childIndex)) - py (pos (ps ! parentIndex))) \<Longrightarrow>
           len > 0.1 \<Longrightarrow>
           P \<lparr>particleAIndex = parentIndex, particleBIndex = childIndex, restLength = len\<rparr>"
  shows "list_all P (fold (addConstraints ps pm) es cs)"
  using assms
proof (induction es arbitrary: cs)
  case Nil
  then show ?case by simp
next
  case (Cons e es)
  have "list_all P (addConstraints ps pm e cs)"
  proof (cases "fst e = ''ground'' \<or> map_of pm (fst e) = None")
    case True
    then show ?thesis using Cons.prems(1) by (auto simp: addConstraints_def Let_def)
  next
    case False
    then obtain parentIndex where pi: "map_of pm (fst e) = Some parentIndex" by auto
    have "list_all P (fold (addChildConstraint ps pm parentIndex) (children (snd e)) cs)"
      by (rule fold_addChildConstraint_inv [OF Cons.prems(1)])
         (rule Cons.prems(2) [of e parentIndex], simp_all add: pi)
    then show ?thesis using False pi by (simp add: addConstraints_def Let_def)
  qed
  moreover have "fold (addConstraints ps pm) (e # es) cs =
      fold (addConstraints ps pm) es (addConstraints ps pm e cs)"
    by simp
  ultimately show ?case
    using Cons.IH [of "addConstraints ps pm e cs"] Cons.prems(2)
    by (metis list.set_intros(2))
qed

lemma create_constraints_ok:
  "list_all (constraintOk (createPhysicsBodyFromPose pose))
     (constraints (createPhysicsBodyFromPose pose))"
  unfolding constraints_create
proof (rule fold_addConstraints_inv, simp, goal_cases)
  case (1 entry parentIndex childKey childIndex len)
  then show ?case
    unfolding constraintOk_def linksParentChild_def particleDist_def list_ex_iff
    by (auto simp: )
qed

text \<open>
  C10. For every pose, every constraint of the body that \<open>createPhysicsBodyFromPose\<close>
  returns links a parent and one of its children in the hierarchy, and its rest length
  is the distance of the two particles and exceeds 0.1. The \<^verbatim>\<open>torso\<close> and
  \<^verbatim>\<open>head\<close> particles (indices 1 and 3) coincide, and no constraint links them.
\<close>

theorem createPhysicsBody_constraints_ok:
  "list_all (constraintOk (createPhysicsBodyFromPose pose))
     (constraints (createPhysicsBodyFromPose pose))
   \<and> map_of (particleMap (createPhysicsBodyFromPose pose)) ''torso'' = Some 1
   \<and> map_of (particleMap (createPhysicsBodyFromPose pose)) ''head'' = Some 3
   \<and> particleDist (createPhysicsBodyFromPose pose) 1 3 = 0
   \<and> \<not> list_ex (\<lambda>c. particleAIndex c = 1 \<and> particleBIndex c = 3)
        (constraints (createPhysicsBodyFromPose pose))"
proof -
  let ?b = "createPhysicsBodyFromPose pose"
  have ok: "list_all (constraintOk ?b) (constraints ?b)" by (rule create_constraints_ok)
  have d: "particleDist ?b 1 3 = 0"
    by (simp add: particleDist_def particles_create mkParticle_def hypot_def)
  have "\<not> list_ex (\<lambda>c. particleAIndex c = 1 \<and> particleBIndex c = 3) (constraints ?b)"
  proof
    assume "list_ex (\<lambda>c. particleAIndex c = 1 \<and> particleBIndex c = 3) (constraints ?b)"
    then obtain c where c: "c \<in> set (constraints ?b)" "particleAIndex c = 1" "particleBIndex c = 3"
      by (auto simp: list_ex_iff)
    with ok have "constraintOk ?b c" by (simp add: list_all_iff)
    with c d show False by (auto simp: constraintOk_def)
  qed
  with ok d show ?thesis by (simp add: particleMap_create)
qed

subsection \<open>The physics step\<close>

lemma hypot_2_0: "hypot 2 0 = 2" by (simp add: hypot_def)
lemma hypot_0_0: "hypot 0 0 = 0" by (simp add: hypot_def)

lemma relaxConstraint_frame:
  "map mass (snd (relaxConstraint c ps)) = map mass ps"
  "map pid (snd (relaxConstraint c ps)) = map pid ps"
  "length (snd (relaxConstraint c ps)) = length ps"
  by (simp_all add: relaxConstraint_def Let_def list_eq_iff_nth_eq nth_list_update)

lemma foldE_frame:
  assumes "\<And>x s. Q (snd (f x s)) = Q s"
  shows "Q (snd (foldE f xs s)) = Q s"
proof (induction xs arbitrary: s)
  case Nil
  show ?case by simp
next
  case (Cons x xs)
  show ?case
  proof (cases "f x s")
    case (Pair e s')
    then have "Q s' = Q s" using assms [of x s] by simp
    then show ?thesis using Pair Cons.IH [of s'] by (cases e) simp_all
  qed
qed

lemma relaxPass_frame:
  "map mass (snd (relaxPass cs ps)) = map mass ps"
  "map pid (snd (relaxPass cs ps)) = map pid ps"
  "length (snd (relaxPass cs ps)) = length ps"
  unfolding relaxPass_def
  by (rule foldE_frame, rule relaxConstraint_frame)+

lemma relaxLoop_frame:
  "map mass (snd (relaxLoop n cs ps)) = map mass ps
   \<and> map pid (snd (relaxLoop n cs ps)) = map pid ps
   \<and> length (snd (relaxLoop n cs ps)) = length ps"
proof (induction n arbitrary: ps)
  case 0
  show ?case by simp
next
  case (Suc n)
  show ?case
  proof (cases "relaxPass cs ps")
    case (Pair e ps')
    then have "map mass ps' = map mass ps" "map pid ps' = map pid ps" "length ps' = length ps"
      using relaxPass_frame [of cs ps] by simp_all
    then show ?thesis using Pair Suc.IH [of ps'] by (cases e) simp_all
  qed
qed

lemma integrateParticle_frame:
  "mass (integrateParticle d t p) = mass p" "pid (integrateParticle d t p) = pid p"
  by (simp_all add: integrateParticle_def Let_def)

lemma collideParticle_frame:
  "mass (collideParticle p) = mass p" "pid (collideParticle p) = pid p"
  by (simp_all add: collideParticle_def Let_def)

text \<open>
  C9. A step changes only \<open>pos\<close> and \<open>prevPos\<close>: whatever the body, \<open>dt\<close> and the
  target skeleton, and whether the call returns or throws, the body afterwards has the
  same constraints (indices and rest lengths), the same index map, the same number of
  particles, and every particle keeps its mass and its id.
\<close>

theorem updatePhysicsBody_frame:
  "constraints (snd (updatePhysicsBody body dt tgt)) = constraints body
   \<and> particleMap (snd (updatePhysicsBody body dt tgt)) = particleMap body
   \<and> map mass (particles (snd (updatePhysicsBody body dt tgt))) = map mass (particles body)
   \<and> map pid (particles (snd (updatePhysicsBody body dt tgt))) = map pid (particles body)
   \<and> length (particles (snd (updatePhysicsBody body dt tgt))) = length (particles body)"
proof -
  let ?ps1 = "map (integrateParticle (dt * dt) tgt) (particles body)"
  obtain e ps2 where r: "relaxLoop SOLVER_ITERATIONS (constraints body) ?ps1 = (e, ps2)"
    by (cases "relaxLoop SOLVER_ITERATIONS (constraints body) ?ps1")
  have "map mass ps2 = map mass ?ps1" "map pid ps2 = map pid ?ps1" "length ps2 = length ?ps1"
    using relaxLoop_frame [of SOLVER_ITERATIONS "constraints body" ?ps1] r by simp_all
  then have f: "map mass ps2 = map mass (particles body)" "map pid ps2 = map pid (particles body)"
    "length ps2 = length (particles body)"
    by (simp_all add: integrateParticle_frame comp_def)
  show ?thesis
    using r f by (cases e) (simp_all add: updatePhysicsBody_def Let_def collideParticle_frame comp_def)
qed

subsection \<open>The bounds after a step\<close>

text \<open>Writes to one position object leave the others as they are.\<close>

lemma setXY_length [simp]: "length (setX a v h) = length h" "length (setY a v h) = length h"
  by (simp_all add: setX_def setY_def)

lemma setXY_other [simp]:
  "b \<noteq> a \<Longrightarrow> setX a v h ! b = h ! b" "b \<noteq> a \<Longrightarrow> setY a v h ! b = h ! b"
  by (simp_all add: setX_def setY_def)

lemma setXY_same [simp]:
  "a < length h \<Longrightarrow> setX a v h ! a = (h ! a)\<lparr>jx := v\<rparr>"
  "a < length h \<Longrightarrow> setY a v h ! a = (h ! a)\<lparr>jy := v\<rparr>"
  by (simp_all add: setX_def setY_def)


lemma collideS_length [simp]: "length (collideS p h) = length h"
  by (simp add: collideS_def Let_def)

lemma collideS_other:
  "a \<noteq> posRef p \<Longrightarrow> a \<noteq> prevPosRef p \<Longrightarrow> collideS p h ! a = h ! a"
  by (simp add: collideS_def Let_def)

text \<open>The two clamps of the last lines of phase 3, on a number.\<close>

lemma clampY_ok:
  "(if jgt y (Fin GROUND_PLANE_Y) then Fin GROUND_PLANE_Y else y) = NaN
   \<or> jle (if jgt y (Fin GROUND_PLANE_Y) then Fin GROUND_PLANE_Y else y) (Fin GROUND_PLANE_Y)"
  by (cases y) (simp_all add: jgt_def jle_def)

lemma clampX_ok:
  "jx (q4 :: JPoint) = (if jgt x1 (Fin (W - 10)) then Fin (W - 10) else x1) \<Longrightarrow>
   x1 = (if jlt x (Fin 10) then Fin 10 else x) \<Longrightarrow>
   jx q4 = NaN \<or> (jle (Fin 10) (jx q4) \<and> jle (jx q4) (Fin (W - 10)))"
  by (cases x) (auto simp: jgt_def jle_def W_def split: if_splits)

lemma collideS_own_coords:
  assumes "posRef p < length h" and "posRef p \<noteq> prevPosRef p"
  shows "jy (collideS p h ! posRef p) =
           (if jgt (jy (h ! posRef p)) (Fin GROUND_PLANE_Y) then Fin GROUND_PLANE_Y
            else jy (h ! posRef p))"
    and "jx (collideS p h ! posRef p) =
           (if jgt (if jlt (jx (h ! posRef p)) (Fin 10) then Fin 10 else jx (h ! posRef p))
                 (Fin (W - 10))
            then Fin (W - 10)
            else (if jlt (jx (h ! posRef p)) (Fin 10) then Fin 10 else jx (h ! posRef p)))"
  using assms by (simp_all add: collideS_def Let_def)

lemma collideS_own:
  assumes "posRef p < length h" and "posRef p \<noteq> prevPosRef p"
  shows "inBoundsOrNaN (collideS p h ! posRef p)"
  unfolding inBoundsOrNaN_def
proof
  show "jy (collideS p h ! posRef p) = NaN
      \<or> jle (jy (collideS p h ! posRef p)) (Fin GROUND_PLANE_Y)"
    unfolding collideS_own_coords(1) [OF assms] by (rule clampY_ok)
  show "jx (collideS p h ! posRef p) = NaN
      \<or> (jle (Fin 10) (jx (collideS p h ! posRef p))
          \<and> jle (jx (collideS p h ! posRef p)) (Fin (W - 10)))"
    by (rule clampX_ok [OF collideS_own_coords(2) [OF assms] refl])
qed


lemma refsOf_Cons: "refsOf (p # ps) = posRef p # prevPosRef p # refsOf ps"
  by (simp add: refsOf_def)

lemma posRef_in_refsOf: "p \<in> set ps \<Longrightarrow> posRef p \<in> set (refsOf ps)"
  by (auto simp: refsOf_def)

lemma fold_collideS_ok:
  assumes "distinct (refsOf ps)" and "\<forall>a \<in> set (refsOf ps). a < length h"
    and "\<forall>a \<in> A. inBoundsOrNaN (h ! a)" and "A \<inter> set (refsOf ps) = {}"
  shows "\<forall>a \<in> A \<union> posRef ` set ps. inBoundsOrNaN (fold collideS ps h ! a)"
  using assms
proof (induction ps arbitrary: h A)
  case Nil
  then show ?case by simp
next
  case (Cons p ps)
  let ?h1 = "collideS p h" and ?A1 = "insert (posRef p) A"
  have d: "posRef p \<noteq> prevPosRef p" "posRef p \<notin> set (refsOf ps)"
    "prevPosRef p \<notin> set (refsOf ps)" "distinct (refsOf ps)"
    using Cons.prems(1) by (simp_all add: refsOf_Cons)
  have l: "posRef p < length h" "\<forall>a \<in> set (refsOf ps). a < length ?h1"
    using Cons.prems(2) by (simp_all add: refsOf_Cons)
  have nA: "posRef p \<notin> A" "prevPosRef p \<notin> A"
    using Cons.prems(4) by (auto simp: refsOf_Cons)
  have own: "inBoundsOrNaN (?h1 ! posRef p)" by (rule collideS_own [OF l(1) d(1)])
  have old: "\<forall>a \<in> A. inBoundsOrNaN (?h1 ! a)"
  proof
    fix a assume a: "a \<in> A"
    then have "a \<noteq> posRef p" "a \<noteq> prevPosRef p" using nA by auto
    then have "?h1 ! a = h ! a" by (rule collideS_other)
    then show "inBoundsOrNaN (?h1 ! a)" using Cons.prems(3) a by simp
  qed
  have ok1: "\<forall>a \<in> ?A1. inBoundsOrNaN (?h1 ! a)" using own old by simp
  have dj: "?A1 \<inter> set (refsOf ps) = {}"
    using Cons.prems(4) d(2) by (auto simp: refsOf_Cons)
  have "\<forall>a \<in> ?A1 \<union> posRef ` set ps. inBoundsOrNaN (fold collideS ps ?h1 ! a)"
    by (rule Cons.IH [OF d(4) l(2) ok1 dj])
  then show ?case by simp
qed

lemma fold_collideS_all:
  assumes "unshared ps h"
  shows "list_all (\<lambda>p. inBoundsOrNaN (fold collideS ps h ! posRef p)) ps"
proof -
  have "\<forall>a \<in> {} \<union> posRef ` set ps. inBoundsOrNaN (fold collideS ps h ! a)"
    by (rule fold_collideS_ok) (use assms in \<open>simp_all add: unshared_def list_all_iff\<close>)
  then show ?thesis by (simp add: list_all_iff)
qed

lemma integrateS_refs:
  assumes "integrateS dtSq tgt p h = (p', h')"
  shows "posRef p' = posRef p"
    and "length h \<le> length h'"
    and "prevPosRef p' = prevPosRef p \<or> (prevPosRef p' = length h \<and> length h < length h')"
  using assms by (auto simp: integrateS_def Let_def split: if_splits)

lemma integrateAll_unshared:
  assumes "distinct (pre @ refsOf ps)" and "\<forall>a \<in> set (pre @ refsOf ps). a < length h"
    and "integrateAll dtSq tgt ps h = (ps', h')"
  shows "distinct (pre @ refsOf ps') \<and> (\<forall>a \<in> set (pre @ refsOf ps'). a < length h')
         \<and> length ps' = length ps"
  using assms
proof (induction ps arbitrary: pre h ps' h')
  case Nil
  then show ?case by simp
next
  case (Cons p ps)
  obtain p1 h1 where s1: "integrateS dtSq tgt p h = (p1, h1)"
    by (cases "integrateS dtSq tgt p h")
  obtain ps1 h2 where s2: "integrateAll dtSq tgt ps h1 = (ps1, h2)"
    by (cases "integrateAll dtSq tgt ps h1")
  have res: "ps' = p1 # ps1" "h' = h2" using Cons.prems(3) s1 s2 by simp_all
  note r = integrateS_refs [OF s1]
  let ?pre1 = "pre @ [posRef p1, prevPosRef p1]"
  have b: "\<forall>a \<in> set (pre @ refsOf (p # ps)). a < length h" by (rule Cons.prems(2))
  have d1: "distinct (?pre1 @ refsOf ps)"
    using Cons.prems(1) b r(1) r(3) by (auto simp: refsOf_Cons)
  have b1: "\<forall>a \<in> set (?pre1 @ refsOf ps). a < length h1"
  proof
    fix a assume a: "a \<in> set (?pre1 @ refsOf ps)"
    have old: "\<And>c. c \<in> set (pre @ refsOf (p # ps)) \<Longrightarrow> c < length h1"
      using b r(2) by fastforce
    from a consider "a \<in> set (pre @ refsOf (p # ps))" | "a = prevPosRef p1"
      using r(1) by (auto simp: refsOf_Cons)
    then show "a < length h1"
    proof cases
      case 1
      then show ?thesis by (rule old)
    next
      case 2
      show ?thesis
        using r(3) old [of "prevPosRef p"] 2 by (auto simp: refsOf_Cons)
    qed
  qed
  have "distinct (?pre1 @ refsOf ps1) \<and> (\<forall>a \<in> set (?pre1 @ refsOf ps1). a < length h2)
         \<and> length ps1 = length ps"
    by (rule Cons.IH [OF d1 b1 s2])
  then show ?case by (simp add: res refsOf_Cons)
qed

lemma relaxConstraintS_length [simp]: "length (snd (relaxConstraintS ps c h)) = length h"
  by (simp add: relaxConstraintS_def Let_def)

lemma relaxLoopS_length: "length (snd (relaxLoopS n ps cs h)) = length h"
proof (induction n arbitrary: h)
  case 0
  show ?case by simp
next
  case (Suc n)
  obtain e h1 where r: "foldE (relaxConstraintS ps) cs h = (e, h1)"
    by (cases "foldE (relaxConstraintS ps) cs h")
  have "length (snd (foldE (relaxConstraintS ps) cs h)) = length h"
    by (rule foldE_frame) simp
  then have "length h1 = length h" using r by simp
  then show ?case using r Suc.IH [of h1] by (cases e) simp_all
qed

lemma relaxConstraintS_ok:
  "aIndex c < length ps \<Longrightarrow> bIndex c < length ps \<Longrightarrow> fst (relaxConstraintS ps c h) = None"
  by (simp add: relaxConstraintS_def Let_def)

lemma foldE_relaxS_ok:
  "list_all (\<lambda>c. aIndex c < length ps \<and> bIndex c < length ps) cs
     \<Longrightarrow> fst (foldE (relaxConstraintS ps) cs h) = None"
proof (induction cs arbitrary: h)
  case Nil
  show ?case by simp
next
  case (Cons c cs)
  obtain e h1 where r: "relaxConstraintS ps c h = (e, h1)" by (cases "relaxConstraintS ps c h")
  have "e = None" using relaxConstraintS_ok [of c ps h] Cons.prems r by simp
  then show ?case using Cons.IH [of h1] Cons.prems r by simp
qed

lemma relaxLoopS_ok:
  "list_all (\<lambda>c. aIndex c < length ps \<and> bIndex c < length ps) cs
     \<Longrightarrow> fst (relaxLoopS n ps cs h) = None"
proof (induction n arbitrary: h)
  case 0
  show ?case by simp
next
  case (Suc n)
  obtain e h1 where r: "foldE (relaxConstraintS ps) cs h = (e, h1)"
    by (cases "foldE (relaxConstraintS ps) cs h")
  have "e = None" using foldE_relaxS_ok [OF Suc.prems, of h] r by simp
  then show ?case using Suc.IH [of h1] Suc.prems r by simp
qed

text \<open>Small numbers stay finite, and a product of \<open>2 ^ 1024\<close> or more overflows.\<close>

lemma jsOfReal_Fin: "\<bar>x\<bar> < 2 ^ 1024 \<Longrightarrow> jsOfReal x = Fin x"
  by (auto simp: jsOfReal_def)

lemma jsOfReal_PosInf: "2 ^ 1024 \<le> x \<Longrightarrow> jsOfReal x = PosInf"
  by (simp add: jsOfReal_def)

lemma includesStr_a_foot: "\<not> includesStr ''a'' ''foot''" "\<not> includesStr ''b'' ''foot''"
  by simp_all

text \<open>The step on the three sample stores.\<close>

lemma resting_unshared:
  "unshared (sparticles restingBody) outsideStore"
  "unshared (sparticles restingBody) restingStore"
  "wellIndexedS restingBody"
  by (simp_all add: unshared_def refsOf_def restingBody_def outsideStore_def restingStore_def
        wellIndexedS_def)

lemma updatePhysicsBodyS_outside:
  "updatePhysicsBodyS restingBody outsideStore (Fin 0) None =
     (None,
      restingBody\<lparr>sparticles := [\<lparr>sid = ''a'', posRef = 0, prevPosRef = 2, smass = Fin 1\<rparr>]\<rparr>,
      [\<lparr>jx = Fin 10, jy = Fin GROUND_PLANE_Y\<rparr>, \<lparr>jx = Fin 5, jy = Fin 900\<rparr>,
       \<lparr>jx = Fin 5, jy = Fin GROUND_PLANE_Y\<rparr>])"
  by (simp add: updatePhysicsBodyS_def restingBody_def outsideStore_def integrateS_def
        collideS_def Let_def setX_def setY_def jsub_def jgt_def jsOfReal_Fin
        SOLVER_ITERATIONS_def eval_nat_numeral includesStr_a_foot
        GRAVITY_def FRICTION_def GROUND_FRICTION_def GROUND_PLANE_Y_def W_def H_def)

lemma updatePhysicsBodyS_huge_dt:
  "updatePhysicsBodyS restingBody restingStore (Fin (10 ^ 155)) None =
     (None,
      restingBody\<lparr>sparticles := [\<lparr>sid = ''a'', posRef = 0, prevPosRef = 2, smass = Fin 1\<rparr>]\<rparr>,
      [\<lparr>jx = NaN, jy = Fin GROUND_PLANE_Y\<rparr>, \<lparr>jx = Fin 100, jy = Fin 100\<rparr>,
       \<lparr>jx = NaN, jy = PosInf\<rparr>])"
  by (simp add: updatePhysicsBodyS_def restingBody_def restingStore_def integrateS_def
        collideS_def Let_def setX_def setY_def jsub_def jgt_def jsOfReal_Fin jsOfReal_PosInf
        infOfSign_def SOLVER_ITERATIONS_def eval_nat_numeral includesStr_a_foot
        GRAVITY_def FRICTION_def GROUND_FRICTION_def GROUND_PLANE_Y_def W_def H_def)

text \<open>
  Without the hypothesis on sharing a clamped particle can leave the bounds again: on
  \<open>sharedBody\<close> the collision of the second particle writes its previous position,
  which is the position of the first one, and moves it to \<open>y = 850\<close>, under the
  ground.
\<close>

lemma updatePhysicsBodyS_shared_prevPos:
  "\<not> unshared (sparticles sharedBody) sharedStore
   \<and> inBoundsJ (sharedStore ! 0)
   \<and> fst (updatePhysicsBodyS sharedBody sharedStore (Fin 0) None) = None
   \<and> snd (snd (updatePhysicsBodyS sharedBody sharedStore (Fin 0) None)) ! 0
       = \<lparr>jx = Fin 100, jy = Fin 850\<rparr>
   \<and> \<not> inBoundsOrNaN (snd (snd (updatePhysicsBodyS sharedBody sharedStore (Fin 0) None)) ! 0)"
  by (simp add: updatePhysicsBodyS_def sharedBody_def sharedStore_def integrateS_def
        collideS_def Let_def setX_def setY_def jsub_def jgt_def jle_def jsOfReal_Fin
        unshared_def refsOf_def inBoundsJ_def inBoundsOrNaN_def
        SOLVER_ITERATIONS_def eval_nat_numeral includesStr_a_foot
        GRAVITY_def FRICTION_def GROUND_FRICTION_def GROUND_PLANE_Y_def W_def H_def)

text \<open>
  C7. The claim: after every step every particle satisfies \<open>y \<le> GROUND_PLANE_Y\<close> and
  \<open>10 \<le> x \<le> W - 10\<close>, whatever \<open>dt\<close> and the positions. The code, on a particle of
  mass 1 at rest at \<open>(100, 100)\<close>, inside the bounds, with \<open>dt = 10 ^ 155\<close> and no
  target: \<open>dt * dt\<close> overflows to the infinity, \<open>accel.x * dtSq\<close> is \<open>0\<close> times the
  infinity, which is NaN, and NaN passes both clamps on \<open>x\<close>, since every comparison
  with it is false. The step returns and the particle ends at \<open>(NaN, 760)\<close>, which
  satisfies neither bound on \<open>x\<close>.
\<close>

theorem updatePhysicsBodyS_huge_dt_counterexample:
  "inBoundsJ (restingStore ! 0)
   \<and> fst (updatePhysicsBodyS restingBody restingStore (Fin (10 ^ 155)) None) = None
   \<and> map posRef
        (sparticles (fst (snd (updatePhysicsBodyS restingBody restingStore (Fin (10 ^ 155)) None))))
       = [0]
   \<and> snd (snd (updatePhysicsBodyS restingBody restingStore (Fin (10 ^ 155)) None)) ! 0
       = \<lparr>jx = NaN, jy = Fin 760\<rparr>
   \<and> \<not> jle (Fin 10)
          (jx (snd (snd (updatePhysicsBodyS restingBody restingStore (Fin (10 ^ 155)) None)) ! 0))
   \<and> \<not> jle (jx (snd (snd (updatePhysicsBodyS restingBody restingStore (Fin (10 ^ 155)) None)) ! 0))
          (Fin (W - 10))
   \<and> \<not> inBoundsJ
          (snd (snd (updatePhysicsBodyS restingBody restingStore (Fin (10 ^ 155)) None)) ! 0)"
  unfolding updatePhysicsBodyS_huge_dt
  by (simp add: restingStore_def restingBody_def inBoundsJ_def jle_def GROUND_PLANE_Y_def
        H_def W_def)

text \<open>
  C7, amended. For a body none of whose position objects is shared, after every step
  that returns every coordinate of every particle position is NaN or within its
  bounds: \<open>y\<close> is NaN or \<open>y \<le> GROUND_PLANE_Y\<close>, and \<open>x\<close> is NaN or
  \<open>10 \<le> x \<le> W - 10\<close>, whatever \<open>dt\<close>, the target joints and the positions before
  the step. The step returns whenever every constraint index names a particle.
\<close>

theorem updatePhysicsBodyS_inBoundsOrNaN:
  assumes "unshared (sparticles body) h"
  shows "(fst (updatePhysicsBodyS body h dt tgt) = None \<longrightarrow>
            list_all (\<lambda>p. inBoundsOrNaN (snd (snd (updatePhysicsBodyS body h dt tgt)) ! posRef p))
              (sparticles (fst (snd (updatePhysicsBodyS body h dt tgt)))))
         \<and> (wellIndexedS body \<longrightarrow> fst (updatePhysicsBodyS body h dt tgt) = None)"
proof -
  obtain ps1 h1 where i: "integrateAll (jmul dt dt) tgt (sparticles body) h = (ps1, h1)"
    by (cases "integrateAll (jmul dt dt) tgt (sparticles body) h")
  obtain e h2 where r: "relaxLoopS SOLVER_ITERATIONS ps1 (sconstraints body) h1 = (e, h2)"
    by (cases "relaxLoopS SOLVER_ITERATIONS ps1 (sconstraints body) h1")
  have u0: "distinct ([] @ refsOf (sparticles body))"
    "\<forall>a \<in> set ([] @ refsOf (sparticles body)). a < length h"
    using assms by (simp_all add: unshared_def list_all_iff)
  have u1: "distinct ([] @ refsOf ps1) \<and> (\<forall>a \<in> set ([] @ refsOf ps1). a < length h1)
      \<and> length ps1 = length (sparticles body)"
    by (rule integrateAll_unshared [OF u0 i])
  have "length h2 = length h1"
    using relaxLoopS_length [of SOLVER_ITERATIONS ps1 "sconstraints body" h1] r by simp
  then have u2: "unshared ps1 h2" using u1 by (simp add: unshared_def list_all_iff)
  have a: "fst (updatePhysicsBodyS body h dt tgt) = None \<longrightarrow>
      list_all (\<lambda>p. inBoundsOrNaN (snd (snd (updatePhysicsBodyS body h dt tgt)) ! posRef p))
        (sparticles (fst (snd (updatePhysicsBodyS body h dt tgt))))"
    using i r fold_collideS_all [OF u2]
    by (cases e) (simp_all add: updatePhysicsBodyS_def Let_def)
  have b: "fst (updatePhysicsBodyS body h dt tgt) = None" if "wellIndexedS body"
  proof -
    have "fst (relaxLoopS SOLVER_ITERATIONS ps1 (sconstraints body) h1) = None"
      by (rule relaxLoopS_ok) (use that u1 in \<open>simp add: wellIndexedS_def\<close>)
    then show ?thesis using i r by (simp add: updatePhysicsBodyS_def Let_def)
  qed
  from a b show ?thesis by blast
qed

theorem updatePhysicsBodyS_inBoundsOrNaN_witness:
  "unshared (sparticles restingBody) outsideStore
   \<and> wellIndexedS restingBody
   \<and> outsideStore ! 0 = \<lparr>jx = Fin 5, jy = Fin 900\<rparr>
   \<and> fst (updatePhysicsBodyS restingBody outsideStore (Fin 0) None) = None
   \<and> snd (snd (updatePhysicsBodyS restingBody outsideStore (Fin 0) None)) ! 0
       = \<lparr>jx = Fin 10, jy = Fin 760\<rparr>
   \<and> list_all
        (\<lambda>p. inBoundsOrNaN
                (snd (snd (updatePhysicsBodyS restingBody outsideStore (Fin 0) None)) ! posRef p))
        (sparticles (fst (snd (updatePhysicsBodyS restingBody outsideStore (Fin 0) None))))"
proof -
  have u: "unshared (sparticles restingBody) outsideStore" by (rule resting_unshared(1))
  have w: "wellIndexedS restingBody" by (rule resting_unshared(3))
  have s: "snd (snd (updatePhysicsBodyS restingBody outsideStore (Fin 0) None)) ! 0
      = \<lparr>jx = Fin 10, jy = Fin 760\<rparr>"
    by (simp add: updatePhysicsBodyS_outside GROUND_PLANE_Y_def H_def)
  have o: "outsideStore ! 0 = \<lparr>jx = Fin 5, jy = Fin 900\<rparr>" by (simp add: outsideStore_def)
  note t = updatePhysicsBodyS_inBoundsOrNaN [OF u, of "Fin 0" None]
  have n: "fst (updatePhysicsBodyS restingBody outsideStore (Fin 0) None) = None"
    by (rule mp [OF conjunct2 [OF t] w])
  have l: "list_all
        (\<lambda>p. inBoundsOrNaN
                (snd (snd (updatePhysicsBodyS restingBody outsideStore (Fin 0) None)) ! posRef p))
        (sparticles (fst (snd (updatePhysicsBodyS restingBody outsideStore (Fin 0) None))))"
    by (rule mp [OF conjunct1 [OF t] n])
  show ?thesis by (intro conjI u w o n s l)
qed

text \<open>
  C4. The claim: a particle of mass 0 never receives a positional correction; the other
  endpoint of its constraint absorbs all of it. The code, on \<open>anchoredPair\<close>: the first
  particle has mass 0 and sits at \<open>(100, 100)\<close>, the second at \<open>(102, 100)\<close>, the rest
  length is 1. One pass moves both by the full correction, the mass-0 particle to
  \<open>(101, 100)\<close>: its share of the other's mass is \<open>1 / 1\<close>, and the share used for
  the other particle falls back to 1. A whole step with \<open>dt = 0\<close> and no target shows
  the same positions.
\<close>

theorem relaxPass_moves_zero_mass_particle:
  "mass (particles anchoredPair ! 0) = 0
   \<and> map pos (particles anchoredPair) = [\<lparr>px = 100, py = 100\<rparr>, \<lparr>px = 102, py = 100\<rparr>]
   \<and> relaxPass (constraints anchoredPair) (particles anchoredPair) =
       (None,
        [\<lparr>pid = ''a'', pos = \<lparr>px = 101, py = 100\<rparr>, prevPos = \<lparr>px = 100, py = 100\<rparr>,
          mass = 0\<rparr>,
         \<lparr>pid = ''b'', pos = \<lparr>px = 101, py = 100\<rparr>, prevPos = \<lparr>px = 102, py = 100\<rparr>,
          mass = 1\<rparr>])
   \<and> map pos (particles (snd (updatePhysicsBody anchoredPair 0 None))) =
       [\<lparr>px = 101, py = 100\<rparr>, \<lparr>px = 101, py = 100\<rparr>]"
proof -
  have pass: "relaxPass (constraints anchoredPair) (particles anchoredPair) =
       (None,
        [\<lparr>pid = ''a'', pos = \<lparr>px = 101, py = 100\<rparr>, prevPos = \<lparr>px = 100, py = 100\<rparr>,
          mass = 0\<rparr>,
         \<lparr>pid = ''b'', pos = \<lparr>px = 101, py = 100\<rparr>, prevPos = \<lparr>px = 102, py = 100\<rparr>,
          mass = 1\<rparr>])"
    by (simp add: relaxPass_def anchoredPair_def relaxConstraint_def Let_def hypot_2_0)
  have step: "map pos (particles (snd (updatePhysicsBody anchoredPair 0 None))) =
       [\<lparr>px = 101, py = 100\<rparr>, \<lparr>px = 101, py = 100\<rparr>]"
    by (simp add: updatePhysicsBody_def anchoredPair_def integrateParticle_def
        SOLVER_ITERATIONS_def eval_nat_numeral relaxPass_def relaxConstraint_def Let_def
        hypot_2_0 hypot_0_0 collideParticle_def GROUND_PLANE_Y_def H_def W_def GRAVITY_def
        FRICTION_def)
  from pass step show ?thesis by (simp add: anchoredPair_def)
qed

subsection \<open>Pose extraction\<close>

lemma atan2_axis:
  "y < 0 \<Longrightarrow> atan2 y 0 = - (pi / 2)"
  "y > 0 \<Longrightarrow> atan2 y 0 = pi / 2"
  "x > 0 \<Longrightarrow> atan2 0 x = 0"
  "x < 0 \<Longrightarrow> atan2 0 x = pi"
  "atan2 0 0 = 0"
  by (simp_all add: atan2_def)

lemma getParticlePos_create:
  "getParticlePos (createPhysicsBodyFromPose pose) ''root'' = Inr (Some (rootPosOf pose))"
  "getParticlePos (createPhysicsBodyFromPose pose) ''torso'' = Inr (Some (neckPosOf pose))"
  "getParticlePos (createPhysicsBodyFromPose pose) ''waist'' = Inr (Some (waistEndOf pose))"
  "getParticlePos (createPhysicsBodyFromPose pose) ''head'' = Inr (Some (neckPosOf pose))"
  "getParticlePos (createPhysicsBodyFromPose pose) ''left.shoulder'' = Inr (Some (shoulderPosOf LeftSide pose))"
  "getParticlePos (createPhysicsBodyFromPose pose) ''left.elbow'' = Inr (Some (elbowPosOf LeftSide pose))"
  "getParticlePos (createPhysicsBodyFromPose pose) ''left.hand'' = Inr (Some (handPosOf LeftSide pose))"
  "getParticlePos (createPhysicsBodyFromPose pose) ''right.shoulder'' = Inr (Some (shoulderPosOf RightSide pose))"
  "getParticlePos (createPhysicsBodyFromPose pose) ''right.elbow'' = Inr (Some (elbowPosOf RightSide pose))"
  "getParticlePos (createPhysicsBodyFromPose pose) ''right.hand'' = Inr (Some (handPosOf RightSide pose))"
  "getParticlePos (createPhysicsBodyFromPose pose) ''left.hip'' = Inr (Some (hipPosOf LeftSide pose))"
  "getParticlePos (createPhysicsBodyFromPose pose) ''left.knee'' = Inr (Some (kneePosOf LeftSide pose))"
  "getParticlePos (createPhysicsBodyFromPose pose) ''left.foot'' = Inr (Some (footPosOf LeftSide pose))"
  "getParticlePos (createPhysicsBodyFromPose pose) ''right.hip'' = Inr (Some (hipPosOf RightSide pose))"
  "getParticlePos (createPhysicsBodyFromPose pose) ''right.knee'' = Inr (Some (kneePosOf RightSide pose))"
  "getParticlePos (createPhysicsBodyFromPose pose) ''right.foot'' = Inr (Some (footPosOf RightSide pose))"
  by (simp_all add: getParticlePos_def particleMap_create particles_create mkParticle_def)

lemma default_positions:
  "rootPosOf getDefaultPose = \<lparr>px = 400, py = 346\<rparr>"
  "neckPosOf getDefaultPose = \<lparr>px = 400, py = 202\<rparr>"
  "waistEndOf getDefaultPose = \<lparr>px = 400, py = 426\<rparr>"
  "shoulderPosOf LeftSide getDefaultPose = \<lparr>px = 352, py = 202\<rparr>"
  "shoulderPosOf RightSide getDefaultPose = \<lparr>px = 448, py = 202\<rparr>"
  "elbowPosOf LeftSide getDefaultPose = \<lparr>px = 256, py = 202\<rparr>"
  "elbowPosOf RightSide getDefaultPose = \<lparr>px = 544, py = 202\<rparr>"
  "handPosOf LeftSide getDefaultPose = \<lparr>px = 160, py = 202\<rparr>"
  "handPosOf RightSide getDefaultPose = \<lparr>px = 640, py = 202\<rparr>"
  "hipPosOf LeftSide getDefaultPose = \<lparr>px = 371, py = 426\<rparr>"
  "hipPosOf RightSide getDefaultPose = \<lparr>px = 429, py = 426\<rparr>"
  by (simp_all add: rootPosOf_def neckPosOf_def waistEndOf_def shoulderPosOf_def elbowPosOf_def
      handPosOf_def hipPosOf_def getDefaultPose_def getEndPoint_def rotatePoint_def rad_def
      kin_consts Let_def)


lemmas ca_unfold = calculateAngles.simps [of _ "''root''"] calculateAngles.simps [of _ "''torso''"] calculateAngles.simps [of _ "''waist''"] calculateAngles.simps [of _ "''head''"] calculateAngles.simps [of _ "''left.shoulder''"] calculateAngles.simps [of _ "''left.elbow''"] calculateAngles.simps [of _ "''left.hand''"] calculateAngles.simps [of _ "''right.shoulder''"] calculateAngles.simps [of _ "''right.elbow''"] calculateAngles.simps [of _ "''right.hand''"] calculateAngles.simps [of _ "''left.hip''"] calculateAngles.simps [of _ "''left.knee''"] calculateAngles.simps [of _ "''left.foot''"] calculateAngles.simps [of _ "''right.hip''"] calculateAngles.simps [of _ "''right.knee''"] calculateAngles.simps [of _ "''right.foot''"]

text \<open>
  C1. The claim: extracting a pose from the body just built from \<open>p\<close> gives back the
  angles of \<open>p\<close>. The code, at the default pose (all of \<open>groundTilt\<close>, \<open>torso\<close>,
  \<open>waist\<close>, \<open>head\<close> are 0, the shoulders are \<open>pi\<close> and 0, the hips \<open>100\<close> and \<open>80\<close>
  degrees): the extraction returns a pose with \<open>groundTilt = - pi\<close>, \<open>torso = pi / 2\<close>,
  \<open>waist = 3 pi / 2\<close>, \<open>head = pi / 2\<close>, shoulders \<open>3 pi / 2\<close> and \<open>pi / 2\<close>, hips
  \<open>pi / 2\<close> and \<open>- pi / 2\<close>. Only the offset comes back as it was.
\<close>

theorem extract_create_default_pose:
  "groundTilt getDefaultPose = 0 \<and> torso getDefaultPose = 0 \<and> waist getDefaultPose = 0
   \<and> head getDefaultPose = 0
   \<and> shoulder (left getDefaultPose) = pi \<and> shoulder (right getDefaultPose) = 0
   \<and> hip (left getDefaultPose) = 5 * pi / 9 \<and> hip (right getDefaultPose) = 4 * pi / 9
   \<and> (case extractPoseFromPhysicsBody (createPhysicsBodyFromPose getDefaultPose)
              getDefaultPose of
         Inl e \<Rightarrow> False
       | Inr p \<Rightarrow>
           groundTilt p = - pi \<and> torso p = pi / 2 \<and> waist p = 3 * pi / 2 \<and> head p = pi / 2
           \<and> shoulder (left p) = 3 * pi / 2 \<and> shoulder (right p) = pi / 2
           \<and> hip (left p) = pi / 2 \<and> hip (right p) = - (pi / 2)
           \<and> offset p = offset getDefaultPose)"
proof -
  have "case extractPoseFromPhysicsBody (createPhysicsBodyFromPose getDefaultPose)
              getDefaultPose of
         Inl e \<Rightarrow> False
       | Inr p \<Rightarrow>
           groundTilt p = - pi \<and> torso p = pi / 2 \<and> waist p = 3 * pi / 2 \<and> head p = pi / 2
           \<and> shoulder (left p) = 3 * pi / 2 \<and> shoulder (right p) = pi / 2
           \<and> hip (left p) = pi / 2 \<and> hip (right p) = - (pi / 2)
           \<and> offset p = offset getDefaultPose"
    by (simp add: extractPoseFromPhysicsBody_def Let_def getParticlePos_create
        default_positions atan2_axis kin_consts ca_unfold hierarchy_def setPoseAngle_def
        setSideField_def)
       (simp add: getDefaultPose_def)
  then show ?thesis by (simp add: getDefaultPose_def rad_def)
qed

subsection \<open>Inverse kinematics\<close>

lemma hypot_axis: "hypot a 0 = \<bar>a\<bar>" "hypot 0 b = \<bar>b\<bar>"
  by (simp_all add: hypot_def)

lemma hypot_nonneg: "0 \<le> hypot a b" by (simp add: hypot_def)

lemma hypot_scale: "hypot (s * a) (s * b) = \<bar>s\<bar> * hypot a b"
proof -
  have "(s * a) * (s * a) + (s * b) * (s * b) = s\<^sup>2 * (a * a + b * b)"
    by (simp add: power2_eq_square algebra_simps)
  then show ?thesis by (simp add: hypot_def real_sqrt_mult)
qed

lemma distance_nonneg: "0 \<le> distance p q" by (simp add: distance_def hypot_nonneg)

lemma distance_onRay:
  "distance p (onRay p t s) = \<bar>s\<bar> * distance p t"
proof -
  have "distance p (onRay p t s) = hypot (s * (px p - px t)) (s * (py p - py t))"
    by (simp add: distance_def onRay_def algebra_simps)
  then show ?thesis by (simp add: hypot_scale distance_def)
qed

lemma distance_onRay_target:
  "distance (onRay p t s) t = \<bar>1 - s\<bar> * distance p t"
proof -
  have "distance (onRay p t s) t = hypot ((1 - s) * (px p - px t)) ((1 - s) * (py p - py t))"
    by (simp add: distance_def onRay_def algebra_simps)
  then show ?thesis by (simp only: hypot_scale distance_def)
qed

lemma distance_onRay_onRay:
  "distance (onRay p t s) (onRay p t u) = \<bar>u - s\<bar> * distance p t"
proof -
  have "distance (onRay p t s) (onRay p t u) =
      hypot ((u - s) * (px p - px t)) ((u - s) * (py p - py t))"
    by (simp add: distance_def onRay_def algebra_simps)
  then show ?thesis by (simp only: hypot_scale distance_def)
qed

lemma blend_onRay:
  "\<lparr>px = (1 - l) * px p + l * px t, py = (1 - l) * py p + l * py t\<rparr> = onRay p t l"
  by (simp add: onRay_def algebra_simps)

lemma blend_onRay_onRay:
  "\<lparr>px = (1 - l) * px (onRay p t s) + l * px t,
    py = (1 - l) * py (onRay p t s) + l * py t\<rparr> = onRay p t (s + l * (1 - s))"
  by (simp add: onRay_def algebra_simps)

lemma upt_0_2: "[0 ..< 2] = [0, Suc 0]"
  by (simp add: upt_rec)

lemma solveFabrik_3_stretch:
  assumes far: "distance p0 t > distance p0 p1 + distance p1 p2"
  shows "solveFabrik [p0, p1, p2] t iterations tolerance =
         [p0, onRay p0 t (distance p0 p1 / distance p0 t),
              onRay p0 t ((distance p0 p1 + distance p1 p2) / distance p0 t)]"
proof -
  let ?l1 = "distance p0 p1" and ?l2 = "distance p1 p2" and ?d = "distance p0 t"
  let ?s = "?l1 / ?d"
  have l1: "0 \<le> ?l1" and l2: "0 \<le> ?l2" by (rule distance_nonneg)+
  have d: "0 < ?d" using far l1 l2 by linarith
  have s01: "0 \<le> ?s" "?s < 1" using far l1 l2 d by simp_all
  have lens: "segmentLengths [p0, p1, p2] = [?l1, ?l2]"
    by (simp add: segmentLengths_def upt_0_2)
  have step0: "stretchStep [?l1, ?l2] t 0 [p0, p1, p2] = [p0, onRay p0 t ?s, p2]"
    by (simp add: stretchStep_def Let_def blend_onRay)
  have r1: "distance (onRay p0 t ?s) t = ?d - ?l1"
  proof -
    have "distance (onRay p0 t ?s) t = (1 - ?s) * ?d"
      using s01 by (simp add: distance_onRay_target)
    also have "\<dots> = ?d - ?l1" using d by (simp add: field_simps)
    finally show ?thesis .
  qed
  have pos: "0 < ?d - ?l1" using far l2 by linarith
  have comb: "?s + ?l2 / (?d - ?l1) * (1 - ?s) = (?l1 + ?l2) / ?d"
  proof -
    have "1 - ?s = (?d - ?l1) / ?d" using d by (simp add: field_simps)
    then have "?l2 / (?d - ?l1) * (1 - ?s) = ?l2 / ?d" using pos by simp
    then show ?thesis by (simp add: add_divide_distrib)
  qed
  have raw: "stretchStep [?l1, ?l2] t (Suc 0) [p0, onRay p0 t ?s, p2] =
      [p0, onRay p0 t ?s, onRay p0 t (?s + ?l2 / (?d - ?l1) * (1 - ?s))]"
    by (simp add: stretchStep_def Let_def r1 blend_onRay_onRay)
  have step1: "stretchStep [?l1, ?l2] t (Suc 0) [p0, onRay p0 t ?s, p2] =
      [p0, onRay p0 t ?s, onRay p0 t ((?l1 + ?l2) / ?d)]"
    by (subst comb [symmetric]) (rule raw)
  show ?thesis
    using far by (simp add: solveFabrik_def Let_def lens upt_0_2 step0 step1)
qed

text \<open>
  C3. For a chain of three points with rest lengths \<open>l1\<close> and \<open>l2\<close> and a target
  farther from the first point than \<open>l1 + l2\<close>, \<open>solveFabrik\<close> returns, whatever
  \<open>iterations\<close> and \<open>tolerance\<close> are (no round of the iteration runs), the first point
  unchanged and two points on the ray from it through the target, at the parameters
  \<open>l1 / d\<close> and \<open>(l1 + l2) / d\<close> of the distance \<open>d\<close> to the target, which lie in
  \<open>[0, 1)\<close> in this order; the two segments of the result have the lengths \<open>l1\<close> and
  \<open>l2\<close>.
\<close>

theorem solveFabrik_unreachable_target:
  assumes far: "distance p0 t > distance p0 p1 + distance p1 p2"
  shows "solveFabrik [p0, p1, p2] t iterations tolerance =
           [p0, onRay p0 t (distance p0 p1 / distance p0 t),
                onRay p0 t ((distance p0 p1 + distance p1 p2) / distance p0 t)]
         \<and> 0 \<le> distance p0 p1 / distance p0 t
         \<and> distance p0 p1 / distance p0 t
             \<le> (distance p0 p1 + distance p1 p2) / distance p0 t
         \<and> (distance p0 p1 + distance p1 p2) / distance p0 t < 1
         \<and> distance p0 (onRay p0 t (distance p0 p1 / distance p0 t)) = distance p0 p1
         \<and> distance (onRay p0 t (distance p0 p1 / distance p0 t))
              (onRay p0 t ((distance p0 p1 + distance p1 p2) / distance p0 t))
             = distance p1 p2"
proof -
  let ?l1 = "distance p0 p1" and ?l2 = "distance p1 p2" and ?d = "distance p0 t"
  have l1: "0 \<le> ?l1" and l2: "0 \<le> ?l2" by (rule distance_nonneg)+
  have d: "0 < ?d" using far l1 l2 by linarith
  have a: "0 \<le> ?l1 / ?d" using l1 d by simp
  have b: "?l1 / ?d \<le> (?l1 + ?l2) / ?d" using l2 d by (simp add: divide_right_mono)
  have c: "(?l1 + ?l2) / ?d < 1" using far d by simp
  have e: "distance p0 (onRay p0 t (?l1 / ?d)) = ?l1"
    using l1 d by (simp add: distance_onRay)
  have "(?l1 + ?l2) / ?d - ?l1 / ?d = ?l2 / ?d" by (simp add: add_divide_distrib)
  then have f: "distance (onRay p0 t (?l1 / ?d)) (onRay p0 t ((?l1 + ?l2) / ?d)) = ?l2"
    using l2 d by (simp add: distance_onRay_onRay)
  from solveFabrik_3_stretch [OF far] a b c e f show ?thesis by simp
qed

theorem solveFabrik_unreachable_target_witness:
  "distance \<lparr>px = 0, py = 0\<rparr> \<lparr>px = 5, py = 0\<rparr>
     > distance \<lparr>px = 0, py = 0\<rparr> \<lparr>px = 0, py = 1\<rparr>
       + distance \<lparr>px = 0, py = 1\<rparr> \<lparr>px = 1, py = 1\<rparr>
   \<and> solveFabrik [\<lparr>px = 0, py = 0\<rparr>, \<lparr>px = 0, py = 1\<rparr>, \<lparr>px = 1, py = 1\<rparr>]
         \<lparr>px = 5, py = 0\<rparr> 10 (1 / 10) =
       [\<lparr>px = 0, py = 0\<rparr>, \<lparr>px = 1, py = 0\<rparr>, \<lparr>px = 2, py = 0\<rparr>]"
proof -
  have far: "distance \<lparr>px = 0, py = 0\<rparr> \<lparr>px = 5, py = 0\<rparr>
     > distance \<lparr>px = 0, py = 0\<rparr> \<lparr>px = 0, py = 1\<rparr>
       + distance \<lparr>px = 0, py = 1\<rparr> \<lparr>px = 1, py = 1\<rparr>"
    by (simp add: distance_def hypot_axis)
  from solveFabrik_unreachable_target [OF far, of 10 "1 / 10"] far show ?thesis
    by (simp add: distance_def hypot_axis onRay_def)
qed

subsection \<open>\<^verbatim>\<open>solveFabrik\<close> and its argument\<close>

lemma storeNew_objs [simp]: "objs (storeNew r i p h) = objs h @ [p]"
  by (simp add: storeNew_def allocObj_def setSlot_def)

lemma storeNew_arrs [simp]:
  "arrs (storeNew r i p h) = (arrs h)[r := (arrs h ! r)[i := length (objs h)]]"
  by (simp add: storeNew_def allocObj_def setSlot_def)

lemma wfArr_storeNew: "wfArr h r \<Longrightarrow> wfArr (storeNew r i p h) r"
  by (auto simp: wfArr_def list_all_iff dest!: set_update_subset_insert [THEN subsetD])

lemma readArr_storeNew:
  assumes "wfArr h r"
  shows "readArr (storeNew r i p h) r = (readArr h r)[i := p]"
proof -
  have r: "r < length (arrs h)" and a: "\<forall>a \<in> set (arrs h ! r). a < length (objs h)"
    using assms by (simp_all add: wfArr_def list_all_iff)
  have eq: "map (nth (objs h @ [p])) (arrs h ! r) = map (nth (objs h)) (arrs h ! r)"
    using a by (simp add: nth_append)
  show ?thesis
    using r by (simp add: readArr_def map_update eq)
qed

lemma keeps_refl: "keeps h h"
  by (simp add: keeps_def)

lemma keeps_storeNew:
  "keeps h0 h \<Longrightarrow> length (arrs h0) \<le> r \<Longrightarrow> keeps h0 (storeNew r i p h)"
  by (simp add: keeps_def)

lemma loopInv_storeNew:
  "loopInv r n t tv rootA rv h \<Longrightarrow> loopInv r n t tv rootA rv (storeNew r i p h)"
  by (simp add: loopInv_def wfArr_storeNew nth_append) (simp add: wfArr_def)

lemma getSlot_readArr:
  "loopInv r n t tv rootA rv h \<Longrightarrow> i < n \<Longrightarrow> getSlot h r i = readArr h r ! i"
  by (simp add: loopInv_def getSlot_def readArr_def)

lemma length_readArr: "loopInv r n t tv rootA rv h \<Longrightarrow> length (readArr h r) = n"
  by (simp add: loopInv_def readArr_def)


lemma stretchStepH_refine:
  assumes "loopInv r n t tv rootA rv h" and "i + 1 < n"
  shows "readArr (stretchStepH lengths t r i h) r = stretchStep lengths tv i (readArr h r)"
    and "loopInv r n t tv rootA rv (stretchStepH lengths t r i h)"
proof -
  have g: "getSlot h r i = readArr h r ! i"
    using getSlot_readArr [OF assms(1), of i] assms(2) by simp
  have tv: "objs h ! t = tv" and wf: "wfArr h r" using assms(1) by (simp_all add: loopInv_def)
  show "readArr (stretchStepH lengths t r i h) r = stretchStep lengths tv i (readArr h r)"
    by (simp add: stretchStepH_def stretchStep_def Let_def readArr_storeNew [OF wf] g tv)
  show "loopInv r n t tv rootA rv (stretchStepH lengths t r i h)"
    unfolding stretchStepH_def Let_def by (rule loopInv_storeNew [OF assms(1)])
qed

lemma forwardStepH_refine:
  assumes "loopInv r n t tv rootA rv h" and "i + 1 < n"
  shows "readArr (forwardStepH lengths r i h) r = forwardStep lengths i (readArr h r)"
    and "loopInv r n t tv rootA rv (forwardStepH lengths r i h)"
proof -
  have g: "getSlot h r i = readArr h r ! i" "getSlot h r (i + 1) = readArr h r ! (i + 1)"
    using getSlot_readArr [OF assms(1), of i] getSlot_readArr [OF assms(1), of "i + 1"] assms(2)
    by simp_all
  have wf: "wfArr h r" using assms(1) by (simp add: loopInv_def)
  show "readArr (forwardStepH lengths r i h) r = forwardStep lengths i (readArr h r)"
    by (simp add: forwardStepH_def forwardStep_def Let_def readArr_storeNew [OF wf] g
        del: One_nat_def)
  show "loopInv r n t tv rootA rv (forwardStepH lengths r i h)"
    unfolding forwardStepH_def Let_def by (rule loopInv_storeNew [OF assms(1)])
qed

lemma backwardStepH_refine:
  assumes "loopInv r n t tv rootA rv h" and "i + 1 < n"
  shows "readArr (backwardStepH lengths r i h) r = backwardStep lengths i (readArr h r)"
    and "loopInv r n t tv rootA rv (backwardStepH lengths r i h)"
proof -
  have g: "getSlot h r i = readArr h r ! i" "getSlot h r (i + 1) = readArr h r ! (i + 1)"
    using getSlot_readArr [OF assms(1), of i] getSlot_readArr [OF assms(1), of "i + 1"] assms(2)
    by simp_all
  have wf: "wfArr h r" using assms(1) by (simp add: loopInv_def)
  show "readArr (backwardStepH lengths r i h) r = backwardStep lengths i (readArr h r)"
    by (simp add: backwardStepH_def backwardStep_def Let_def readArr_storeNew [OF wf] g
        del: One_nat_def)
  show "loopInv r n t tv rootA rv (backwardStepH lengths r i h)"
    unfolding backwardStepH_def Let_def by (rule loopInv_storeNew [OF assms(1)])
qed

lemma fold_refine:
  assumes step: "\<And>i h. i \<in> set js \<Longrightarrow> I h \<Longrightarrow> I (fH i h) \<and> rd (fH i h) = f i (rd h)"
    and "I h"
  shows "I (fold fH js h) \<and> rd (fold fH js h) = fold f js (rd h)"
  using assms
proof (induction js arbitrary: h)
  case Nil
  then show ?case by simp
next
  case (Cons j js)
  have 1: "I (fH j h) \<and> rd (fH j h) = f j (rd h)" using Cons.prems by simp
  have "I (fold fH js (fH j h)) \<and> rd (fold fH js (fH j h)) = fold f js (rd (fH j h))"
    by (rule Cons.IH) (use Cons.prems 1 in simp_all)
  with 1 show ?case by simp
qed

lemma fold_keeps:
  assumes "\<And>i h. keeps h0 h \<Longrightarrow> keeps h0 (fH i h)" and "keeps h0 h"
  shows "keeps h0 (fold fH js h)"
  using assms by (induction js arbitrary: h) simp_all


lemma fabrikRoundH_refine:
  assumes inv: "loopInv r n t tv rootA rv h" and n: "0 < n"
  shows "loopInv r n t tv rootA rv (fabrikRoundH lengths rootA t r h)
         \<and> readArr (fabrikRoundH lengths rootA t r h) r =
             fabrikRound lengths rv tv (readArr h r)"
proof -
  let ?I = "loopInv r n t tv rootA rv" and ?rd = "\<lambda>h. readArr h r"
  have len: "length (arrs h ! r) = n" and tv: "objs h ! t = tv" and wf: "wfArr h r"
    using inv by (simp_all add: loopInv_def)
  have lenr: "length (readArr h r) = n" by (rule length_readArr [OF inv])
  let ?h1 = "storeNew r (n - 1) tv h"
  have i1: "?I ?h1" by (rule loopInv_storeNew [OF inv])
  have r1: "?rd ?h1 = (readArr h r)[n - 1 := tv]" by (rule readArr_storeNew [OF wf])
  let ?h2 = "fold (forwardStepH lengths r) (rev [0 ..< n - 1]) ?h1"
  have f2: "?I ?h2 \<and> ?rd ?h2 = fold (forwardStep lengths) (rev [0 ..< n - 1]) (?rd ?h1)"
  proof (rule fold_refine [where I = ?I and rd = ?rd, OF _ i1])
    fix i h' assume "i \<in> set (rev [0 ..< n - 1])" and "?I h'"
    then show "?I (forwardStepH lengths r i h')
        \<and> readArr (forwardStepH lengths r i h') r = forwardStep lengths i (readArr h' r)"
      using forwardStepH_refine [of r n t tv rootA rv h' i lengths] by simp
  qed
  then have i2: "?I ?h2" and rv: "objs ?h2 ! rootA = rv" and wf2: "wfArr ?h2 r"
    by (simp_all add: loopInv_def)
  let ?h3 = "storeNew r 0 rv ?h2"
  have i3: "?I ?h3" by (rule loopInv_storeNew [OF i2])
  have r3: "?rd ?h3 = (?rd ?h2)[0 := rv]" by (rule readArr_storeNew [OF wf2])
  let ?h4 = "fold (backwardStepH lengths r) [0 ..< n - 1] ?h3"
  have f4: "?I ?h4 \<and> ?rd ?h4 = fold (backwardStep lengths) [0 ..< n - 1] (?rd ?h3)"
  proof (rule fold_refine [where I = ?I and rd = ?rd, OF _ i3])
    fix i h' assume "i \<in> set [0 ..< n - 1]" and "?I h'"
    then show "?I (backwardStepH lengths r i h')
        \<and> readArr (backwardStepH lengths r i h') r = backwardStep lengths i (readArr h' r)"
      using backwardStepH_refine [of r n t tv rootA rv h' i lengths] by simp
  qed
  have H: "fabrikRoundH lengths rootA t r h = ?h4"
    by (simp add: fabrikRoundH_def Let_def len tv rv del: One_nat_def)
  have V: "fabrikRound lengths rv tv (readArr h r) =
      fold (backwardStep lengths) [0 ..< n - 1]
        ((fold (forwardStep lengths) (rev [0 ..< n - 1]) ((readArr h r)[n - 1 := tv]))[0 := rv])"
    by (simp add: fabrikRound_def Let_def lenr del: One_nat_def)
  show ?thesis
    unfolding H V using f4 f2 r1 r3 by simp
qed

lemma fabrikLoopH_refine:
  "loopInv r n t tv rootA rv h \<Longrightarrow> 0 < n \<Longrightarrow>
     loopInv r n t tv rootA rv (fabrikLoopH lengths rootA t iterations tolerance r iter h)
     \<and> readArr (fabrikLoopH lengths rootA t iterations tolerance r iter h) r =
         fabrikLoop lengths rv tv iterations tolerance iter (readArr h r)"
proof (induction lengths rootA t iterations tolerance r iter h rule: fabrikLoopH.induct)
  case (1 lengths rootA t iterations tolerance r iter h)
  let ?c = "distance (getSlot h r (length (arrs h ! r) - 1)) (objs h ! t) > tolerance
              \<and> real iter < iterations"
  have len: "length (arrs h ! r) = n" and tv: "objs h ! t = tv"
    using "1.prems"(1) by (simp_all add: loopInv_def)
  have lenr: "length (readArr h r) = n" by (rule length_readArr [OF "1.prems"(1)])
  have g: "getSlot h r (n - 1) = readArr h r ! (n - 1)"
    using getSlot_readArr [OF "1.prems"(1), of "n - 1"] "1.prems"(2) by simp
  have c: "?c \<longleftrightarrow> distance (readArr h r ! (length (readArr h r) - 1)) tv > tolerance
              \<and> real iter < iterations"
    by (simp add: len lenr tv g del: One_nat_def)
  show ?case
  proof (cases ?c)
    case True
    have rr: "loopInv r n t tv rootA rv (fabrikRoundH lengths rootA t r h)
         \<and> readArr (fabrikRoundH lengths rootA t r h) r =
             fabrikRound lengths rv tv (readArr h r)"
      by (rule fabrikRoundH_refine [OF "1.prems"])
    have ih: "loopInv r n t tv rootA rv
        (fabrikLoopH lengths rootA t iterations tolerance r (iter + 1)
           (fabrikRoundH lengths rootA t r h))
      \<and> readArr (fabrikLoopH lengths rootA t iterations tolerance r (iter + 1)
           (fabrikRoundH lengths rootA t r h)) r =
         fabrikLoop lengths rv tv iterations tolerance (iter + 1)
           (readArr (fabrikRoundH lengths rootA t r h) r)"
      using "1.IH" [OF True] rr "1.prems"(2) by blast
    have cv: "distance (readArr h r ! (length (readArr h r) - 1)) tv > tolerance
              \<and> real iter < iterations"
      using True c by blast
    have H: "fabrikLoopH lengths rootA t iterations tolerance r iter h =
        fabrikLoopH lengths rootA t iterations tolerance r (iter + 1)
           (fabrikRoundH lengths rootA t r h)"
      by (subst fabrikLoopH.simps) (simp only: True if_True simp_thms)
    have V: "fabrikLoop lengths rv tv iterations tolerance iter (readArr h r) =
        fabrikLoop lengths rv tv iterations tolerance (iter + 1)
           (fabrikRound lengths rv tv (readArr h r))"
      by (subst fabrikLoop.simps) (simp only: cv if_True simp_thms)
    show ?thesis unfolding H V using ih rr by simp
  next
    case False
    have cv: "\<not> (distance (readArr h r ! (length (readArr h r) - 1)) tv > tolerance
              \<and> real iter < iterations)"
      using False c by blast
    have H: "fabrikLoopH lengths rootA t iterations tolerance r iter h = h"
      by (subst fabrikLoopH.simps) (simp only: False if_False simp_thms)
    have V: "fabrikLoop lengths rv tv iterations tolerance iter (readArr h r) = readArr h r"
      by (subst fabrikLoop.simps) (simp only: cv if_False simp_thms)
    show ?thesis unfolding H V using "1.prems"(1) by simp
  qed
qed


lemma keeps_steps:
  assumes "keeps h0 h" and "length (arrs h0) \<le> r"
  shows "keeps h0 (stretchStepH lengths t r i h)"
    and "keeps h0 (forwardStepH lengths r i h)"
    and "keeps h0 (backwardStepH lengths r i h)"
  unfolding stretchStepH_def forwardStepH_def backwardStepH_def Let_def
  by (rule keeps_storeNew [OF assms])+

lemma keeps_fabrikRoundH:
  assumes "keeps h0 h" and "length (arrs h0) \<le> r"
  shows "keeps h0 (fabrikRoundH lengths rootA t r h)"
  unfolding fabrikRoundH_def Let_def
  by (intro fold_keeps keeps_storeNew keeps_steps assms)

lemma keeps_fabrikLoopH:
  "keeps h0 h \<Longrightarrow> length (arrs h0) \<le> r \<Longrightarrow>
     keeps h0 (fabrikLoopH lengths rootA t iterations tolerance r iter h)"
proof (induction lengths rootA t iterations tolerance r iter h rule: fabrikLoopH.induct)
  case (1 lengths rootA t iterations tolerance r iter h)
  show ?case
  proof (cases "distance (getSlot h r (length (arrs h ! r) - 1)) (objs h ! t) > tolerance
              \<and> real iter < iterations")
    case True
    have "keeps h0 (fabrikRoundH lengths rootA t r h)"
      by (rule keeps_fabrikRoundH [OF "1.prems"])
    then have "keeps h0 (fabrikLoopH lengths rootA t iterations tolerance r (iter + 1)
           (fabrikRoundH lengths rootA t r h))"
      using "1.IH" [OF True] "1.prems"(2) by blast
    then show ?thesis
      by (subst fabrikLoopH.simps) (simp only: True if_True simp_thms)
  next
    case False
    show ?thesis
      by (subst fabrikLoopH.simps) (simp only: False if_False simp_thms "1.prems"(1))
  qed
qed

lemma copy_fold:
  "list_all (\<lambda>a. a < length (objs h0)) xs \<Longrightarrow>
     fold (\<lambda>a (refs, h1). case allocObj (objs h1 ! a) h1 of (b, h2) \<Rightarrow> (refs @ [b], h2))
       xs (refs0, h0) =
     (refs0 @ [length (objs h0) ..< length (objs h0) + length xs],
      h0\<lparr>objs := objs h0 @ map (nth (objs h0)) xs\<rparr>)"
proof (induction xs arbitrary: refs0 h0)
  case Nil
  show ?case by simp
next
  case (Cons a xs)
  let ?h1 = "h0\<lparr>objs := objs h0 @ [objs h0 ! a]\<rparr>"
  have all: "\<forall>b \<in> set xs. b < length (objs h0)" using Cons.prems by (simp add: list_all_iff)
  then have 1: "list_all (\<lambda>a. a < length (objs ?h1)) xs"
    by (auto simp: list_all_iff)
  have m: "map (nth (objs h0 @ [objs h0 ! a])) xs = map (nth (objs h0)) xs"
    using all by (simp add: nth_append)
  show ?case
    using Cons.IH [OF 1, of "refs0 @ [length (objs h0)]"]
    by (simp add: allocObj_def m upt_conv_Cons del: upt_Suc)
qed

lemma map_nth_append_upt:
  "map (nth (xs @ ys)) [length xs ..< length xs + length ys] = ys"
proof (rule nth_equalityI)
  show "length (map (nth (xs @ ys)) [length xs ..< length xs + length ys]) = length ys"
    by simp
next
  fix i assume "i < length (map (nth (xs @ ys)) [length xs ..< length xs + length ys])"
  then have "i < length ys" by simp
  then show "map (nth (xs @ ys)) [length xs ..< length xs + length ys] ! i = ys ! i"
    by (simp add: nth_append)
qed

lemma copyChain_eq:
  assumes "wfArr h chain"
  shows "copyChain chain h =
     (length (arrs h),
      h\<lparr>objs := objs h @ readArr h chain,
        arrs := arrs h @ [[length (objs h) ..< length (objs h) + length (arrs h ! chain)]]\<rparr>)"
proof -
  have a: "list_all (\<lambda>a. a < length (objs h)) (arrs h ! chain)"
    using assms by (simp add: wfArr_def)
  show ?thesis
    unfolding copyChain_def copy_fold [OF a]
    by (simp add: allocArr_def readArr_def)
qed


lemma segmentLengthsH_refine:
  assumes "loopInv r n t tv rootA rv h"
  shows "segmentLengthsH h r = segmentLengths (readArr h r)"
proof -
  have len: "length (arrs h ! r) = n" using assms by (simp add: loopInv_def)
  have lenr: "length (readArr h r) = n" by (rule length_readArr [OF assms])
  have "map (\<lambda>i. distance (getSlot h r i) (getSlot h r (i + 1))) [0 ..< n - 1] =
        map (\<lambda>i. distance (readArr h r ! i) (readArr h r ! (i + 1))) [0 ..< n - 1]"
  proof (rule map_cong [OF refl])
    fix i assume "i \<in> set [0 ..< n - 1]"
    then have "i < n" "i + 1 < n" by auto
    then show "distance (getSlot h r i) (getSlot h r (i + 1)) =
        distance (readArr h r ! i) (readArr h r ! (i + 1))"
      using getSlot_readArr [OF assms] by simp
  qed
  then show ?thesis by (simp add: segmentLengthsH_def segmentLengths_def len lenr)
qed

lemma solve_core:
  assumes inv: "loopInv r n t tv rootA rv h2" and k: "keeps h0 h2"
    and r: "length (arrs h0) \<le> r" and n: "0 < n"
  shows "keeps h0 (fold (stretchStepH lengths t r) [0 ..< n - 1] h2)"
    and "readArr (fold (stretchStepH lengths t r) [0 ..< n - 1] h2) r =
           fold (stretchStep lengths tv) [0 ..< n - 1] (readArr h2 r)"
    and "keeps h0 (fabrikLoopH lengths rootA t iterations tolerance r 0 h2)"
    and "readArr (fabrikLoopH lengths rootA t iterations tolerance r 0 h2) r =
           fabrikLoop lengths rv tv iterations tolerance 0 (readArr h2 r)"
proof -
  show "keeps h0 (fold (stretchStepH lengths t r) [0 ..< n - 1] h2)"
    by (intro fold_keeps keeps_steps k r)
  have "loopInv r n t tv rootA rv (fold (stretchStepH lengths t r) [0 ..< n - 1] h2)
        \<and> readArr (fold (stretchStepH lengths t r) [0 ..< n - 1] h2) r =
           fold (stretchStep lengths tv) [0 ..< n - 1] (readArr h2 r)"
  proof (rule fold_refine [where I = "loopInv r n t tv rootA rv" and rd = "\<lambda>h. readArr h r",
        OF _ inv])
    fix i h' assume "i \<in> set [0 ..< n - 1]" and "loopInv r n t tv rootA rv h'"
    then show "loopInv r n t tv rootA rv (stretchStepH lengths t r i h')
        \<and> readArr (stretchStepH lengths t r i h') r = stretchStep lengths tv i (readArr h' r)"
      using stretchStepH_refine [of r n t tv rootA rv h' i lengths] by simp
  qed
  then show "readArr (fold (stretchStepH lengths t r) [0 ..< n - 1] h2) r =
           fold (stretchStep lengths tv) [0 ..< n - 1] (readArr h2 r)" by simp
  show "keeps h0 (fabrikLoopH lengths rootA t iterations tolerance r 0 h2)"
    by (rule keeps_fabrikLoopH [OF k r])
  show "readArr (fabrikLoopH lengths rootA t iterations tolerance r 0 h2) r =
           fabrikLoop lengths rv tv iterations tolerance 0 (readArr h2 r)"
    using fabrikLoopH_refine [OF inv n] by simp
qed

lemma solveFabrikH_refine:
  assumes wf: "wfArr h chain" and t: "t < length (objs h)"
  shows "case solveFabrikH h chain t iterations tolerance of
           (r, h') \<Rightarrow>
             keeps h h' \<and> length (arrs h) \<le> r
             \<and> readArr h' r = solveFabrik (readArr h chain) (objs h ! t) iterations tolerance"
proof (cases "arrs h ! chain = []")
  case True
  then show ?thesis
    by (simp add: solveFabrikH_def allocArr_def keeps_def readArr_def solveFabrik_def)
next
  case False
  let ?ps = "readArr h chain" and ?L = "length (objs h)" and ?r = "length (arrs h)"
  let ?n = "length (arrs h ! chain)"
  let ?tv = "objs h ! t" and ?rv = "readArr h chain ! 0"
  let ?h1 = "h\<lparr>objs := objs h @ ?ps, arrs := arrs h @ [[?L ..< ?L + ?n]]\<rparr>"
  let ?h2 = "?h1\<lparr>objs := objs ?h1 @ [?rv]\<rparr>"
  have n: "0 < ?n" using False by simp
  have lps: "length ?ps = ?n" by (simp add: readArr_def)
  have cc: "copyChain chain h = (?r, ?h1)" by (rule copyChain_eq [OF wf])
  have rd1: "readArr ?h1 ?r = ?ps"
    using map_nth_append_upt [of "objs h" ?ps] by (simp add: readArr_def lps)
  have inv1: "loopInv ?r ?n t ?tv t ?tv ?h1"
    using t by (simp add: loopInv_def wfArr_def list_all_iff nth_append lps)
  have lens: "segmentLengthsH ?h1 ?r = segmentLengths ?ps"
    using segmentLengthsH_refine [OF inv1] rd1 by simp
  have gs: "getSlot ?h1 ?r 0 = ?rv"
    using getSlot_readArr [OF inv1 n] rd1 by simp
  have inv2: "loopInv ?r ?n t ?tv (?L + ?n) ?rv ?h2"
    using t by (simp add: loopInv_def wfArr_def list_all_iff nth_append lps)
  have rd2: "readArr ?h2 ?r = ?ps"
  proof -
    have "readArr ?h2 ?r = map (nth ((objs h @ ?ps) @ [?rv])) [?L ..< ?L + ?n]"
      by (simp add: readArr_def)
    also have "\<dots> = map (nth (objs h @ ?ps)) [?L ..< ?L + ?n]"
      by (rule map_cong [OF refl]) (auto simp: nth_append lps)
    also have "\<dots> = ?ps" using map_nth_append_upt [of "objs h" ?ps] by (simp add: lps)
    finally show ?thesis .
  qed
  have k2: "keeps h ?h2" by (simp add: keeps_def)
  have objs2: "objs ?h2 ! (?L + ?n) = ?rv" "objs ?h2 ! t = ?tv"
    using inv2 by (simp_all add: loopInv_def)
  have len2: "length (arrs ?h2 ! ?r) = ?n" using inv2 by (simp add: loopInv_def)
  note core = solve_core [OF inv2 k2 order_refl n, of "segmentLengths ?ps"]
  have H: "solveFabrikH h chain t iterations tolerance =
      (?r, if distance ?rv ?tv > foldl (+) 0 (segmentLengths ?ps)
           then fold (stretchStepH (segmentLengths ?ps) t ?r) [0 ..< ?n - 1] ?h2
           else fabrikLoopH (segmentLengths ?ps) (?L + ?n) t iterations tolerance ?r 0 ?h2)"
    unfolding solveFabrikH_def cc
    using False objs2 len2
    by (simp add: Let_def lens gs allocObj_def lps del: One_nat_def)
  have V: "solveFabrik ?ps ?tv iterations tolerance =
      (if distance ?rv ?tv > foldl (+) 0 (segmentLengths ?ps)
       then fold (stretchStep (segmentLengths ?ps) ?tv) [0 ..< ?n - 1] ?ps
       else fabrikLoop (segmentLengths ?ps) ?rv ?tv iterations tolerance 0 ?ps)"
    using n by (simp add: solveFabrik_def Let_def lps del: One_nat_def)
  show ?thesis
    unfolding H V using core rd2 by (simp del: One_nat_def)
qed


lemma step_length [simp]:
  "length (stretchStep lengths t i xs) = length xs"
  "length (forwardStep lengths i xs) = length xs"
  "length (backwardStep lengths i xs) = length xs"
  by (simp_all add: stretchStep_def forwardStep_def backwardStep_def Let_def)

lemma step_nth0:
  "stretchStep lengths t i xs ! 0 = xs ! 0"
  "backwardStep lengths i xs ! 0 = xs ! 0"
  by (simp_all add: stretchStep_def backwardStep_def Let_def)

lemma fold_step_length [simp]:
  "length (fold (stretchStep lengths t) js xs) = length xs"
  "length (fold (forwardStep lengths) js xs) = length xs"
  "length (fold (backwardStep lengths) js xs) = length xs"
  by (induction js arbitrary: xs) simp_all

lemma fold_step_nth0:
  "fold (stretchStep lengths t) js xs ! 0 = xs ! 0"
  "fold (backwardStep lengths) js xs ! 0 = xs ! 0"
  by (induction js arbitrary: xs) (simp_all add: step_nth0)

lemma fabrikRound_root:
  "length (fabrikRound lengths rootPt t xs) = length xs"
  "xs \<noteq> [] \<Longrightarrow> fabrikRound lengths rootPt t xs ! 0 = rootPt"
  by (simp_all add: fabrikRound_def Let_def fold_step_nth0)

lemma fabrikLoop_root:
  "xs \<noteq> [] \<Longrightarrow> xs ! 0 = rootPt \<Longrightarrow>
     length (fabrikLoop lengths rootPt t iterations tolerance iter xs) = length xs
     \<and> fabrikLoop lengths rootPt t iterations tolerance iter xs ! 0 = rootPt"
proof (induction lengths rootPt t iterations tolerance iter xs rule: fabrikLoop.induct)
  case (1 lengths rootPt t iterations tolerance iter xs)
  show ?case
  proof (cases "distance (xs ! (length xs - 1)) t > tolerance \<and> real iter < iterations")
    case True
    have ne: "fabrikRound lengths rootPt t xs \<noteq> []"
      using "1.prems"(1) fabrikRound_root(1) [of lengths rootPt t xs] by auto
    have "length (fabrikLoop lengths rootPt t iterations tolerance (iter + 1)
              (fabrikRound lengths rootPt t xs)) = length (fabrikRound lengths rootPt t xs)
          \<and> fabrikLoop lengths rootPt t iterations tolerance (iter + 1)
              (fabrikRound lengths rootPt t xs) ! 0 = rootPt"
      by (rule "1.IH" [OF True ne]) (rule fabrikRound_root(2) [OF "1.prems"(1)])
    then show ?thesis
      by (subst (1 2) fabrikLoop.simps) (simp only: True if_True simp_thms fabrikRound_root(1))
  next
    case False
    show ?thesis
      by (subst (1 2) fabrikLoop.simps) (simp only: False if_False simp_thms "1.prems")
  qed
qed

lemma solveFabrik_root:
  assumes "chain \<noteq> []"
  shows "length (solveFabrik chain t iterations tolerance) = length chain"
    and "solveFabrik chain t iterations tolerance ! 0 = chain ! 0"
  using assms fabrikLoop_root [of chain "chain ! 0" "segmentLengths chain" t iterations tolerance 0]
  by (simp_all add: solveFabrik_def Let_def fold_step_nth0)

text \<open>
  C8. \<open>solveFabrik\<close> never writes to its input. On a store where the chain array and
  the target exist: after the call every object and every array that existed before
  holds what it held (so the chain array and each of its points are unchanged), the
  returned array is a new one, its points are those the function computes on values,
  as many as the chain has, and its first point equals the first point of the chain;
  for the empty chain the result is empty.
\<close>

theorem solveFabrik_leaves_input_unchanged:
  assumes "wfArr h chain" and "t < length (objs h)"
  shows "case solveFabrikH h chain t iterations tolerance of
           (r, h') \<Rightarrow>
             take (length (objs h)) (objs h') = objs h
             \<and> take (length (arrs h)) (arrs h') = arrs h
             \<and> length (arrs h) \<le> r
             \<and> readArr h' r = solveFabrik (readArr h chain) (objs h ! t) iterations tolerance
             \<and> length (readArr h' r) = length (readArr h chain)
             \<and> (if readArr h chain = [] then readArr h' r = []
                 else hd (readArr h' r) = hd (readArr h chain))"
proof (cases "solveFabrikH h chain t iterations tolerance")
  case (Pair r h')
  have ref: "keeps h h'" "length (arrs h) \<le> r"
    "readArr h' r = solveFabrik (readArr h chain) (objs h ! t) iterations tolerance"
    using solveFabrikH_refine [OF assms, of iterations tolerance] Pair by simp_all
  have e: "solveFabrik [] (objs h ! t) iterations tolerance = []"
    by (simp add: solveFabrik_def)
  have len: "length (readArr h' r) = length (readArr h chain)"
    using ref(3) e solveFabrik_root(1) [of "readArr h chain" "objs h ! t" iterations tolerance]
    by (cases "readArr h chain = []") simp_all
  have root: "hd (readArr h' r) = hd (readArr h chain)" if ne: "readArr h chain \<noteq> []"
  proof -
    have "readArr h' r \<noteq> []" using len ne by auto
    then show ?thesis
      using ref(3) solveFabrik_root(2) [OF ne, of "objs h ! t" iterations tolerance] ne
      by (simp add: hd_conv_nth)
  qed
  show ?thesis
    using Pair ref len root e by (simp add: keeps_def)
qed

theorem solveFabrik_leaves_input_unchanged_witness:
  "wfArr sampleHeap 0 \<and> 3 < length (objs sampleHeap) \<and> readArr sampleHeap 0 \<noteq> []
   \<and> (case solveFabrikH sampleHeap 0 3 10 (1 / 10) of
        (r, h') \<Rightarrow>
          take (length (objs sampleHeap)) (objs h') = objs sampleHeap
          \<and> take (length (arrs sampleHeap)) (arrs h') = arrs sampleHeap
          \<and> length (arrs sampleHeap) \<le> r
          \<and> hd (readArr h' r) = hd (readArr sampleHeap 0))"
proof -
  have w: "wfArr sampleHeap 0" "3 < length (objs sampleHeap)"
    by (simp_all add: wfArr_def sampleHeap_def)
  have ne: "readArr sampleHeap 0 \<noteq> []"
    by (simp add: readArr_def sampleHeap_def)
  from solveFabrik_leaves_input_unchanged [OF w, of 10 "1 / 10"] w ne show ?thesis
    by (auto split: prod.splits)
qed

end
